theory Spec2Isabelle
  imports Complex_Main "HOL-Library.Word"
begin

unbundle bit_operations_syntax

section \<open>Streamline tractography: shared configuration, FACT stepping, track files\<close>

text \<open>
  A shallow embedding of \<^verbatim>\<open>src/dwi/tractography/tracking/shared.h\<close> (class SharedBase),
  of the FACT tracking method (\<^verbatim>\<open>dwi/tractography/algorithms/fact.h\<close>) and of
  \<^verbatim>\<open>src/dwi/tractography/file.h\<close> (Reader, WriterUnbuffered, Writer).

  Conventions.
  \<^item> In the tracking code \<^verbatim>\<open>value_type\<close> is \<^verbatim>\<open>float\<close>; its arithmetic is idealised as
    arithmetic on \<^typ>\<open>real\<close> (no rounding, no infinities). A member that the constructor
    initialises with \<^verbatim>\<open>NAN\<close>, or leaves uninitialised, has an option type and is
    \<open>None\<close> until it is assigned.
  \<^item> In the track file code a float is the 32-bit pattern that is stored in the file, so
    that the sentinels (NaN, Infinity) and the byte swapping are the ones of the code.
  \<^item> \<^verbatim>\<open>size_t\<close> counters are natural numbers; the \<^verbatim>\<open>int\<close> results of \<^verbatim>\<open>round\<close> are 32-bit
    words, read as signed.
  \<^item> A C++ exception is the value \<open>Inl (Exception msg)\<close>; a write outside an array is
    \<open>Inl BufferOverflow\<close>.
\<close>

subsection \<open>Points\<close>

type_synonym 'a Point = "'a \<times> 'a \<times> 'a"

definition dot :: "real Point \<Rightarrow> real Point \<Rightarrow> real" where
  "dot a b = (case a of (a0, a1, a2) \<Rightarrow> case b of (b0, b1, b2) \<Rightarrow> a0 * b0 + a1 * b1 + a2 * b2)"

definition Point_neg :: "real Point \<Rightarrow> real Point" where
  "Point_neg a = (case a of (a0, a1, a2) \<Rightarrow> (- a0, - a1, - a2))"

definition Point_scale :: "real Point \<Rightarrow> real \<Rightarrow> real Point" where
  "Point_scale a k = (case a of (a0, a1, a2) \<Rightarrow> (a0 * k, a1 * k, a2 * k))"

definition Point_add :: "real Point \<Rightarrow> real Point \<Rightarrow> real Point" where
  "Point_add a b = (case a of (a0, a1, a2) \<Rightarrow> case b of (b0, b1, b2) \<Rightarrow> (a0 + b0, a1 + b1, a2 + b2))"

definition norm2 :: "real Point \<Rightarrow> real" where
  "norm2 a = dot a a"

definition normalise :: "real Point \<Rightarrow> real Point" where
  "normalise a = Point_scale a (1 / sqrt (norm2 a))"

subsection \<open>Errors\<close>

datatype error = Exception string | BufferOverflow | OutsideModel

subsection \<open>Properties\<close>

type_synonym Properties = "string \<rightharpoonup> string"

text \<open>
  The conversions between property strings and values (\<^verbatim>\<open>to<T>\<close>, \<^verbatim>\<open>str\<close>,
  \<^verbatim>\<open>parse_floats\<close> of the library) are parameters of the model.
\<close>

record conv =
  to_float :: "string \<Rightarrow> real"
  str_float :: "real \<Rightarrow> string"
  to_bool :: "string \<Rightarrow> bool"
  str_bool :: "bool \<Rightarrow> string"
  to_size :: "string \<Rightarrow> nat"
  str_size :: "nat \<Rightarrow> string"
  to_int :: "string \<Rightarrow> int"
  parse_floats :: "string \<Rightarrow> real list"

text \<open>
  Modelled from the spec: \<^verbatim>\<open>Properties::set\<close> (properties.h is not among the sources).
  "set(target_ref, key, default) (fills target from key if present, else leaves default
  and inserts it)". The result is the new value of the target and the new map.
\<close>

definition Properties_set ::
  "(string \<Rightarrow> 'a) \<Rightarrow> ('a \<Rightarrow> string) \<Rightarrow> Properties \<Rightarrow> 'a \<Rightarrow> string \<Rightarrow> 'a \<times> Properties" where
  "Properties_set parse show props variable name =
     (case props name of
        Some s \<Rightarrow> (parse s, props)
      | None \<Rightarrow> (variable, props(name \<mapsto> show variable)))"

subsection \<open>SharedBase\<close>

text \<open>
  \<^verbatim>\<open>round\<close> of the library is not among the sources; it returns \<^verbatim>\<open>int\<close> (it is an
  argument of \<^verbatim>\<open>std::max (2, ...)\<close>), which has 32 bits. It is modelled as rounding to
  the nearest integer, halves away from zero (\<open>nearest\<close>), converted to \<^verbatim>\<open>int\<close>. C++
  leaves the conversion of a value outside the range of \<^verbatim>\<open>int\<close> undefined; the model
  gives it \<^verbatim>\<open>INT_MIN\<close>, the result of the conversion instruction of x86-64.
\<close>

definition nearest :: "real \<Rightarrow> int" where
  "nearest x = (if x > 0 then \<lfloor>x + 1 / 2\<rfloor> else \<lceil>x - 1 / 2\<rceil>)"

definition round_c :: "real \<Rightarrow> 32 word" where
  "round_c x =
     (if - (2 ^ 31) \<le> nearest x \<and> nearest x < 2 ^ 31 then word_of_int (nearest x)
      else 0x80000000)"

text \<open>\<^verbatim>\<open>std::max\<close> of two \<^verbatim>\<open>int\<close>: the second argument when the first is less.\<close>

definition std_max :: "32 word \<Rightarrow> 32 word \<Rightarrow> 32 word" where
  "std_max a b = (if a <s b then b else a)"

text \<open>
  Conversion of an integer to \<^verbatim>\<open>size_t\<close> (64 bits); an \<^verbatim>\<open>int\<close> \<open>i\<close> is converted as
  \<open>to_size_t (sint i)\<close>.
\<close>

definition to_size_t :: "int \<Rightarrow> nat" where
  "to_size_t i = nat (i mod 2 ^ 64)"

datatype term_t =
  CONTINUE | CALIBRATE_FAIL | EXIT_IMAGE | BAD_SIGNAL | HIGH_CURVATURE
  | LENGTH_EXCEED | EXIT_MASK | ENTER_EXCLUDE

record SharedBase =
  source_name :: string
  source_vox :: "real Point"
  properties :: Properties
  init_dir :: "real Point option"
  max_num_tracks :: nat
  max_num_attempts :: nat
  min_num_points :: "nat option"
  max_num_points :: "nat option"
  max_angle :: "real option"
  max_angle_rk4 :: "real option"
  cos_max_angle :: "real option"
  cos_max_angle_rk4 :: "real option"
  step_size :: "real option"
  threshold :: real
  init_threshold :: real
  unidirectional :: bool
  rk4 :: bool
  downsampler_ratio :: int
  terminations :: "nat list"
  rejections :: "nat list"

text \<open>
  The constructor, in two parts. \<open>name\<close> and \<open>voxdim\<close> are what the image at
  \<^verbatim>\<open>diff_path\<close> gives for \<^verbatim>\<open>source_buffer.name()\<close> and \<^verbatim>\<open>source_buffer.vox(0..2)\<close>.
  \<open>SharedBase_members\<close> is the initialiser list and the body up to
  \<^verbatim>\<open>properties.set (max_num_attempts, "max_num_attempts")\<close>; the downsampler starts with
  ratio 1. \<open>SharedBase_ctor\<close> continues with \<^verbatim>\<open>init_direction\<close>,
  \<^verbatim>\<open>downsample_factor\<close> and the counters.
\<close>

definition SharedBase_members ::
  "conv \<Rightarrow> string \<Rightarrow> real Point \<Rightarrow> Properties \<Rightarrow> SharedBase" where
  "SharedBase_members cv name voxdim property_set =
     (let (thr, p1) = Properties_set (to_float cv) (str_float cv) property_set (1 / 10) ''threshold'';
          (uni, p2) = Properties_set (to_bool cv) (str_bool cv) p1 False ''unidirectional'';
          (mnt, p3) = Properties_set (to_size cv) (str_size cv) p2 0 ''max_num_tracks'';
          (rk, p4) = Properties_set (to_bool cv) (str_bool cv) p3 False ''rk4'';
          p5 = p4(''source'' \<mapsto> name);
          (ithr, p6) = Properties_set (to_float cv) (str_float cv) p5 (2 * thr) ''init_threshold'';
          (mna, p7) = Properties_set (to_size cv) (str_size cv) p6 ((100 * mnt) mod 2 ^ 64)
                        ''max_num_attempts''
      in \<lparr> source_name = name, source_vox = voxdim, properties = p7, init_dir = None,
           max_num_tracks = mnt, max_num_attempts = mna,
           min_num_points = None, max_num_points = None,
           max_angle = None, max_angle_rk4 = None,
           cos_max_angle = None, cos_max_angle_rk4 = None,
           step_size = None, threshold = thr, init_threshold = ithr,
           unidirectional = uni, rk4 = rk, downsampler_ratio = 1,
           terminations = [], rejections = [] \<rparr>)"

definition SharedBase_ctor ::
  "conv \<Rightarrow> string \<Rightarrow> real Point \<Rightarrow> Properties \<Rightarrow> error + SharedBase" where
  "SharedBase_ctor cv name voxdim property_set =
     (let S = SharedBase_members cv name voxdim property_set
      in case (case properties S ''init_direction'' of
                 None \<Rightarrow> Inr S
               | Some s \<Rightarrow>
                   (case parse_floats cv s of
                      [v0, v1, v2] \<Rightarrow> Inr (S\<lparr>init_dir := Some (normalise (v0, v1, v2))\<rparr>)
                    | _ \<Rightarrow> Inl (Exception (''invalid initial direction \"'' @ s @ ''\"''))))
         of Inl e \<Rightarrow> Inl e
          | Inr S1 \<Rightarrow>
              Inr ((case properties S1 ''downsample_factor'' of
                      None \<Rightarrow> S1
                    | Some s \<Rightarrow> S1\<lparr>downsampler_ratio := to_int cv s\<rparr>)
                   \<lparr>terminations := replicate 8 0, rejections := replicate 3 0\<rparr>))"

definition vox :: "SharedBase \<Rightarrow> real" where
  "vox S = (case source_vox S of (v0, v1, v2) \<Rightarrow> (v0 * v1 * v2) powr (1 / 3))"

definition set_step_size :: "conv \<Rightarrow> SharedBase \<Rightarrow> real \<Rightarrow> SharedBase" where
  "set_step_size cv S stepsize =
     (let (step, p1) = Properties_set (to_float cv) (str_float cv) (properties S)
                         (stepsize * vox S) ''step_size'';
          p2 = (if downsampler_ratio S > 1
                then p1(''output_step_size'' \<mapsto> str_float cv (step * of_int (downsampler_ratio S)))
                else p1);
          (max_dist, p3) = Properties_set (to_float cv) (str_float cv) p2 (100 * vox S) ''max_dist'';
          maxn = to_size_t (sint (round_c (max_dist / step) + 1));
          (min_dist, p4) = Properties_set (to_float cv) (str_float cv) p3 (5 * vox S) ''min_dist'';
          minn = to_size_t (sint (std_max 2 (round_c (min_dist / step) + 1)));
          (max_angle_deg, p5) = Properties_set (to_float cv) (str_float cv) p4
                                  (90 * step / vox S) ''max_angle'';
          angle = max_angle_deg * (pi / 180);
          S1 = S\<lparr> properties := p5, step_size := Some step,
                  max_num_points := Some maxn, min_num_points := Some minn,
                  max_angle := Some angle, cos_max_angle := Some (cos angle) \<rparr>
      in if rk4 S1
         then S1\<lparr> max_angle_rk4 := max_angle S1, cos_max_angle_rk4 := cos_max_angle S1,
                  max_angle := Some pi, cos_max_angle := Some 0 \<rparr>
         else S1)"

subsection \<open>The FACT tracking method\<close>

text \<open>
  The collaborators of the method, which are not among the sources, are parameters:
  \<open>sample\<close> is \<^verbatim>\<open>get_data (source)\<close> at a position (the interpolated signal, or
  \<open>None\<close> when the position cannot be sampled), \<open>dwi2tensor\<close> and \<open>tensor2FA\<close> are
  the tensor fit with \<^verbatim>\<open>S.binv\<close> and the anisotropy, and \<open>principal_ev\<close> is the
  eigenvector that \<^verbatim>\<open>get_EV\<close> stores in \<^verbatim>\<open>dir\<close> (column 2 of the sorted eigenvectors
  of the matrix built from \<^verbatim>\<open>values[0..5]\<close>).
\<close>

record FACT_env =
  sample :: "real Point \<Rightarrow> real list option"
  dwi2tensor :: "real list \<Rightarrow> real list"
  tensor2FA :: "real list \<Rightarrow> real"
  principal_ev :: "real list \<Rightarrow> real Point"

record Method =
  pos :: "real Point"
  dir :: "real Point"
  values_v :: "real list"

definition get_EV :: "FACT_env \<Rightarrow> Method \<Rightarrow> Method" where
  "get_EV env m = m\<lparr>dir := principal_ev env (values_v m)\<rparr>"

definition do_init :: "FACT_env \<Rightarrow> SharedBase \<Rightarrow> Method \<Rightarrow> bool \<times> Method" where
  "do_init env S m =
     (let m1 = m\<lparr>values_v := dwi2tensor env (values_v m)\<rparr>
      in if tensor2FA env (values_v m1) < init_threshold S then (False, m1)
         else (True, get_EV env m1))"

definition FACT_init :: "FACT_env \<Rightarrow> SharedBase \<Rightarrow> Method \<Rightarrow> bool \<times> Method" where
  "FACT_init env S m =
     (case sample env (pos m) of
        None \<Rightarrow> (False, m)
      | Some v \<Rightarrow> do_init env S (m\<lparr>values_v := v\<rparr>))"

text \<open>
  \<^verbatim>\<open>do_next\<close> reads \<^verbatim>\<open>S.cos_max_angle\<close> and \<^verbatim>\<open>S.step_size\<close>. Where one of them is
  still \<^verbatim>\<open>NAN\<close> the float computation has no counterpart on the reals, and the model
  answers \<open>Inl OutsideModel\<close>.
\<close>

definition do_next :: "FACT_env \<Rightarrow> SharedBase \<Rightarrow> Method \<Rightarrow> error + term_t \<times> Method" where
  "do_next env S m =
     (let m1 = m\<lparr>values_v := dwi2tensor env (values_v m)\<rparr>
      in if tensor2FA env (values_v m1) < threshold S then Inr (BAD_SIGNAL, m1)
         else
           (let prev_dir = dir m1;
                m2 = get_EV env m1;
                d = dot prev_dir (dir m2)
            in (case cos_max_angle S of
                  None \<Rightarrow> Inl OutsideModel
                | Some c \<Rightarrow>
                    (if \<bar>d\<bar> < c then Inr (HIGH_CURVATURE, m2)
                     else
                       (let m3 = (if d < 0 then m2\<lparr>dir := Point_neg (dir m2)\<rparr> else m2)
                        in (case step_size S of
                              None \<Rightarrow> Inl OutsideModel
                            | Some h \<Rightarrow>
                                Inr (CONTINUE, m3\<lparr>pos := Point_add (pos m3) (Point_scale (dir m3) h)\<rparr>)))))))"

definition FACT_next :: "FACT_env \<Rightarrow> SharedBase \<Rightarrow> Method \<Rightarrow> error + term_t \<times> Method" where
  "FACT_next env S m =
     (case sample env (pos m) of
        None \<Rightarrow> Inr (EXIT_IMAGE, m)
      | Some v \<Rightarrow> do_next env S (m\<lparr>values_v := v\<rparr>))"

subsection \<open>Track files: stored floats and byte order\<close>

text \<open>
  In the track file code \<^verbatim>\<open>value_type\<close> is \<^verbatim>\<open>float\<close>, modelled by its 32-bit
  pattern. \<^verbatim>\<open>NAN\<close> is the quiet NaN \<open>0x7FC00000\<close> and \<^verbatim>\<open>INFINITY\<close> is
  \<open>0x7F800000\<close>; \<^verbatim>\<open>isnan\<close> and \<^verbatim>\<open>isinf\<close> are the IEEE 754 tests on the pattern.
\<close>

type_synonym float32 = "32 word"

definition NAN :: float32 where
  "NAN = 0x7FC00000"

definition INFINITY :: float32 where
  "INFINITY = 0x7F800000"

definition float_one :: float32 where
  "float_one = 0x3F800000"



text \<open>
  \<^verbatim>\<open>ByteOrder::LE\<close> and \<^verbatim>\<open>ByteOrder::BE\<close> are not among the sources. They convert
  between the byte order of the host and little-endian, respectively big-endian, order:
  the identity when the two agree and a reversal of the four bytes otherwise. The byte
  order of the host is the parameter \<open>host_le\<close>.
\<close>

definition swap32 :: "float32 \<Rightarrow> float32" where
  "swap32 x = push_bit 24 (x AND 0xFF) OR push_bit 8 (x AND 0xFF00)
              OR (drop_bit 8 x AND 0xFF00) OR drop_bit 24 x"

definition LE :: "bool \<Rightarrow> float32 \<Rightarrow> float32" where
  "LE host_le x = (if host_le then x else swap32 x)"

definition BE :: "bool \<Rightarrow> float32 \<Rightarrow> float32" where
  "BE host_le x = (if host_le then swap32 x else x)"

datatype DataType = Float32LE | Float32BE | Float64LE | Float64BE

definition is_little_endian :: "DataType \<Rightarrow> bool" where
  "is_little_endian dt \<longleftrightarrow> dt = Float32LE \<or> dt = Float64LE"

subsection \<open>Track files: streamlines, files and the environment\<close>

record Streamline =
  points :: "float32 Point list"
  index :: nat
  weight :: float32

text \<open>
  A track file is its header and its data region. All reads and writes of the data
  region are whole points of 12 bytes (\<^verbatim>\<open>sizeof (Point<float>)\<close>), so the data region
  is a list of points; the point at list position \<open>k\<close> is at byte offset
  \<open>hdr_size + 12 * k\<close> of the file. A weights file is text.
\<close>

record tck_file =
  hdr_size :: nat
  hdr_dtype :: DataType
  hdr_properties :: Properties
  hdr_count :: nat
  hdr_total_count :: nat
  data_region :: "float32 Point list"

datatype fs_file = Tracks tck_file | Text string

type_synonym filesystem = "string \<rightharpoonup> fs_file"

text \<open>
  What the writer and the reader take from their surroundings: the byte order of the
  host, \<^verbatim>\<open>App::overwrite_files\<close>, the command-line options \<^verbatim>\<open>tck_weights_out\<close> and
  \<^verbatim>\<open>tck_weights_in\<close>, the configuration entry \<^verbatim>\<open>TrackWriterBufferSize\<close>, whether a file
  can be created (\<^verbatim>\<open>std::ofstream\<close> with \<^verbatim>\<open>trunc\<close> succeeds), the number of bytes of the
  header that \<^verbatim>\<open>create\<close> writes, \<^verbatim>\<open>str\<close> of a weight, and the vector that
  \<^verbatim>\<open>Math::Vector::load\<close> parses from the text of a file (\<^verbatim>\<open>str\<close> and \<^verbatim>\<open>load\<close> are not
  among the sources).
\<close>

record App_env =
  host_le :: bool
  overwrite_files :: bool
  tck_weights_out :: "string option"
  tck_weights_in :: "string option"
  TrackWriterBufferSize :: "int option"
  creatable :: "string \<Rightarrow> bool"
  header_bytes :: "Properties \<Rightarrow> nat"
  str_weight :: "float32 \<Rightarrow> string"
  load_vector :: "string \<Rightarrow> float32 list"

definition Path_exists :: "filesystem \<Rightarrow> string \<Rightarrow> bool" where
  "Path_exists fs path \<longleftrightarrow> fs path \<noteq> None"

subsection \<open>WriterUnbuffered\<close>

record WriterUnbuffered =
  name :: string
  dtype :: DataType
  count :: nat
  total_count :: nat
  weights_name :: string
  barrier_addr :: int

definition delimiter :: "float32 Point" where
  "delimiter = (NAN, NAN, NAN)"

definition barrier :: "float32 Point" where
  "barrier = (INFINITY, INFINITY, INFINITY)"

definition format_point :: "App_env \<Rightarrow> DataType \<Rightarrow> float32 Point \<Rightarrow> float32 Point" where
  "format_point env dt src =
     (case src of (s0, s1, s2) \<Rightarrow>
        if is_little_endian dt
        then (LE (host_le env) s0, LE (host_le env) s1, LE (host_le env) s2)
        else (BE (host_le env) s0, BE (host_le env) s1, BE (host_le env) s2))"

text \<open>
  Modelled from the spec: \<^verbatim>\<open>create\<close> and \<^verbatim>\<open>update_counts\<close> of the base class
  (file_base.h is not among the sources). "On creation: write a structured header
  (key/value properties) to the target file"; the header holds the datatype and "a
  persisted running count (number of non-empty streamlines written so far) and
  total_count (including empty attempts) in the header region", which
  \<^verbatim>\<open>update_counts\<close> rewrites with the current values of the members.
\<close>

definition create :: "App_env \<Rightarrow> DataType \<Rightarrow> Properties \<Rightarrow> tck_file" where
  "create env dt props =
     \<lparr> hdr_size = header_bytes env props, hdr_dtype = dt, hdr_properties = props,
       hdr_count = 0, hdr_total_count = 0, data_region = [] \<rparr>"

definition update_counts :: "'a WriterUnbuffered_scheme \<Rightarrow> tck_file \<Rightarrow> tck_file" where
  "update_counts w f = f\<lparr>hdr_count := count w, hdr_total_count := total_count w\<rparr>"

text \<open>The position of the end of the file, as \<^verbatim>\<open>tellp\<close> gives it there.\<close>

definition file_end :: "tck_file \<Rightarrow> int" where
  "file_end f = int (hdr_size f) + 12 * int (length (data_region f))"

text \<open>
  \<^verbatim>\<open>seekp (addr)\<close> followed by the \<^verbatim>\<open>write\<close> of one point. The point replaces the one
  at that offset, or extends the file when the offset is its end. An offset that is not
  the offset of a point of the data region, or lies beyond the end, has no counterpart
  in the model.
\<close>

definition write_point_at :: "tck_file \<Rightarrow> int \<Rightarrow> float32 Point \<Rightarrow> error + tck_file" where
  "write_point_at f addr p =
     (let off = addr - int (hdr_size f)
      in if off < 0 \<or> off mod 12 \<noteq> 0 then Inl OutsideModel
         else
           (let k = nat (off div 12)
            in if k < length (data_region f)
               then Inr (f\<lparr>data_region := (data_region f)[k := p]\<rparr>)
               else if k = length (data_region f)
               then Inr (f\<lparr>data_region := data_region f @ [p]\<rparr>)
               else Inl OutsideModel))"

definition set_weights_path ::
  "App_env \<Rightarrow> 'a WriterUnbuffered_scheme \<Rightarrow> filesystem \<Rightarrow> string
     \<Rightarrow> error + 'a WriterUnbuffered_scheme \<times> filesystem" where
  "set_weights_path env w fs path =
     (if weights_name w \<noteq> []
      then Inl (Exception ''Cannot change output streamline weights file path'')
      else
        (let w1 = w\<lparr>weights_name := path\<rparr>
         in if \<not> overwrite_files env \<and> Path_exists fs (name w1)
            then Inl (Exception (''error creating file \"'' @ weights_name w1
                   @ ''\": file exists (use -force option to force overwrite)''))
            else if \<not> creatable env (weights_name w1)
            then Inl (Exception (''error creating empty streamline weights file \"''
                   @ weights_name w1 @ ''\"''))
            else Inr (w1, fs(weights_name w1 \<mapsto> Text []))))"

text \<open>
  \<^verbatim>\<open>write_weights\<close> opens the weights file with \<^verbatim>\<open>in | out | ate\<close>, which fails when the
  file does not exist, and writes at its end.
\<close>

definition write_weights ::
  "'a WriterUnbuffered_scheme \<Rightarrow> filesystem \<Rightarrow> string \<Rightarrow> error + filesystem" where
  "write_weights w fs contents =
     (case fs (weights_name w) of
        None \<Rightarrow> Inl (Exception (''error re-opening streamline weights file \"''
                  @ weights_name w @ ''\"''))
      | Some (Tracks f) \<Rightarrow> Inl OutsideModel
      | Some (Text t) \<Rightarrow> Inr (fs(weights_name w \<mapsto> Text (t @ contents))))"

text \<open>
  \<^verbatim>\<open>commit (data, num_points)\<close>. The result holds the array \<open>data\<close> as the call leaves
  it. The first \<^verbatim>\<open>write\<close> is at the end of the file (the stream is opened with
  \<^verbatim>\<open>ate\<close>); \<^verbatim>\<open>verify_stream\<close> fails only on an input/output error of the device, which
  is not modelled.
\<close>

definition WriterUnbuffered_commit ::
  "App_env \<Rightarrow> 'a WriterUnbuffered_scheme \<Rightarrow> filesystem \<Rightarrow> float32 Point list \<Rightarrow> nat
     \<Rightarrow> error + float32 Point list \<times> 'a WriterUnbuffered_scheme \<times> filesystem" where
  "WriterUnbuffered_commit env w fs data num_points =
     (if num_points = 0 then Inr (data, w, fs)
      else
        (let prev_barrier_addr = barrier_addr w
         in if \<not> num_points < length data then Inl BufferOverflow
            else
              (let data1 = data[num_points := format_point env (dtype w) barrier]
               in (case fs (name w) of
                     None \<Rightarrow> Inl (Exception (''error re-opening tracks file \"'' @ name w @ ''\"''))
                   | Some (Text t) \<Rightarrow> Inl OutsideModel
                   | Some (Tracks f) \<Rightarrow>
                       (let f1 = f\<lparr>data_region := data_region f @ take num_points (tl data1)\<rparr>;
                            w1 = w\<lparr>barrier_addr := file_end f1 - 12\<rparr>
                        in (case write_point_at f1 prev_barrier_addr (data1 ! 0) of
                              Inl e \<Rightarrow> Inl e
                            | Inr f2 \<Rightarrow>
                                Inr (data1, w1, fs(name w \<mapsto> Tracks (update_counts w1 f2)))))))))"

text \<open>
  The constructor. The base class constructor sets \<^verbatim>\<open>name\<close>, the counters (to zero) and
  the datatype \<open>dt\<close> that the header declares.
\<close>

definition WriterUnbuffered_ctor ::
  "App_env \<Rightarrow> filesystem \<Rightarrow> string \<Rightarrow> DataType \<Rightarrow> Properties
     \<Rightarrow> error + WriterUnbuffered \<times> filesystem" where
  "WriterUnbuffered_ctor env fs file dt props =
     (if \<not> creatable env file
      then Inl (Exception (''error creating tracks file \"'' @ file @ ''\"''))
      else
        (let f = create env dt props;
             w = \<lparr> name = file, dtype = dt, count = 0, total_count = 0, weights_name = [],
                   barrier_addr = file_end f \<rparr>;
             x = format_point env dt barrier;
             fs1 = fs(file \<mapsto> Tracks (f\<lparr>data_region := data_region f @ [x]\<rparr>))
         in (case tck_weights_out env of
               None \<Rightarrow> Inr (w, fs1)
             | Some path \<Rightarrow> set_weights_path env w fs1 path)))"

text \<open>
  \<^verbatim>\<open>operator()\<close>. \<open>operator_buffer\<close> is the array \<^verbatim>\<open>buffer\<close> as it is passed to
  \<^verbatim>\<open>commit\<close>. It has \<^verbatim>\<open>tck.size()+2\<close> elements; each of them is assigned before it
  is read, so their initial value does not matter. The loop assigns
  \<^verbatim>\<open>format_point (barrier(), buffer[n])\<close> for every \<open>n\<close> below \<^verbatim>\<open>tck.size()\<close>.
\<close>

definition fill_buffer ::
  "App_env \<Rightarrow> DataType \<Rightarrow> nat \<Rightarrow> float32 Point list \<Rightarrow> float32 Point list" where
  "fill_buffer env dt sz buf =
     fold (\<lambda>n b. b[n := format_point env dt barrier]) [0..<sz] buf"

definition operator_buffer :: "App_env \<Rightarrow> DataType \<Rightarrow> Streamline \<Rightarrow> float32 Point list" where
  "operator_buffer env dt tck =
     (let sz = length (points tck);
          buffer0 = replicate (sz + 2) (0, 0, 0);
          buffer1 = fill_buffer env dt sz buffer0
      in buffer1[sz := format_point env dt delimiter])"

definition WriterUnbuffered_append ::
  "App_env \<Rightarrow> 'a WriterUnbuffered_scheme \<Rightarrow> filesystem \<Rightarrow> Streamline
     \<Rightarrow> error + bool \<times> 'a WriterUnbuffered_scheme \<times> filesystem" where
  "WriterUnbuffered_append env w fs tck =
     (if length (points tck) \<noteq> 0
      then
        (case WriterUnbuffered_commit env w fs (operator_buffer env (dtype w) tck)
                (length (points tck) + 1) of
           Inl e \<Rightarrow> Inl e
         | Inr (buffer3, w1, fs1) \<Rightarrow>
             (case (if weights_name w1 \<noteq> []
                    then write_weights w1 fs1 (str_weight env (weight tck) @ [CHR 0x0A])
                    else Inr fs1) of
                Inl e \<Rightarrow> Inl e
              | Inr fs2 \<Rightarrow>
                  Inr (True, w1\<lparr>count := count w1 + 1, total_count := total_count w1 + 1\<rparr>,
                       fs2)))
      else Inr (True, w\<lparr>total_count := total_count w + 1\<rparr>, fs))"

subsection \<open>Writer, with RAM buffer\<close>

text \<open>
  The field \<open>commit_trace\<close> is not a member of the class: it records, for every call of
  \<^verbatim>\<open>Writer::commit\<close>, the value of \<^verbatim>\<open>buffer_size\<close> at the call, and nothing reads it.
\<close>

record Writer = WriterUnbuffered +
  buffer_capacity :: nat
  buffer :: "float32 Point list"
  buffer_size :: nat
  weights_buffer :: string
  commit_trace :: "nat list"

definition get_int :: "int option \<Rightarrow> int \<Rightarrow> int" where
  "get_int entry default_value = (case entry of None \<Rightarrow> default_value | Some v \<Rightarrow> v)"

definition Writer_ctor ::
  "App_env \<Rightarrow> filesystem \<Rightarrow> string \<Rightarrow> DataType \<Rightarrow> Properties \<Rightarrow> nat
     \<Rightarrow> error + Writer \<times> filesystem" where
  "Writer_ctor env fs file dt props default_buffer_capacity =
     (case WriterUnbuffered_ctor env fs file dt props of
        Inl e \<Rightarrow> Inl e
      | Inr (w, fs1) \<Rightarrow>
          (let capacity = to_size_t (get_int (TrackWriterBufferSize env)
                                       (int default_buffer_capacity)) div 12
           in Inr (WriterUnbuffered.extend w
                     (Writer.fields capacity (replicate (capacity + 2) (0, 0, 0)) 0 [] []),
                   fs1)))"

definition add_point :: "App_env \<Rightarrow> Writer \<Rightarrow> float32 Point \<Rightarrow> error + Writer" where
  "add_point env w p =
     (if buffer_size w < length (buffer w)
      then Inr (w\<lparr>buffer := (buffer w)[buffer_size w := format_point env (dtype w) p],
                  buffer_size := buffer_size w + 1\<rparr>)
      else Inl BufferOverflow)"

fun add_points :: "App_env \<Rightarrow> Writer \<Rightarrow> float32 Point list \<Rightarrow> error + Writer" where
  "add_points env w [] = Inr w"
| "add_points env w (p # ps) =
     (case add_point env w p of Inl e \<Rightarrow> Inl e | Inr w1 \<Rightarrow> add_points env w1 ps)"

definition Writer_commit :: "App_env \<Rightarrow> Writer \<Rightarrow> filesystem \<Rightarrow> error + Writer \<times> filesystem" where
  "Writer_commit env w fs =
     (case WriterUnbuffered_commit env w fs (buffer w) (buffer_size w) of
        Inl e \<Rightarrow> Inl e
      | Inr (data1, w1, fs1) \<Rightarrow>
          (let w2 = w1\<lparr>buffer := data1, buffer_size := 0,
                       commit_trace := commit_trace w1 @ [buffer_size w]\<rparr>
           in if weights_name w2 \<noteq> []
              then (case write_weights w2 fs1 (weights_buffer w2) of
                      Inl e \<Rightarrow> Inl e
                    | Inr fs2 \<Rightarrow> Inr (w2\<lparr>weights_buffer := []\<rparr>, fs2))
              else Inr (w2, fs1)))"

definition Writer_append ::
  "App_env \<Rightarrow> Writer \<Rightarrow> filesystem \<Rightarrow> Streamline \<Rightarrow> error + bool \<times> Writer \<times> filesystem" where
  "Writer_append env w fs tck =
     (if length (points tck) \<noteq> 0
      then
        (case (if buffer_size w + length (points tck) > buffer_capacity w
               then Writer_commit env w fs else Inr (w, fs)) of
           Inl e \<Rightarrow> Inl e
         | Inr (w1, fs1) \<Rightarrow>
             (case add_points env w1 (points tck @ [delimiter]) of
                Inl e \<Rightarrow> Inl e
              | Inr w2 \<Rightarrow>
                  (let w3 = (if weights_name w2 \<noteq> []
                             then w2\<lparr>weights_buffer :=
                                       weights_buffer w2 @ str_weight env (weight tck) @ '' ''\<rparr>
                             else w2)
                   in Inr (True, w3\<lparr>count := count w3 + 1, total_count := total_count w3 + 1\<rparr>,
                           fs1))))
      else Inr (True, w\<lparr>total_count := total_count w + 1\<rparr>, fs))"

text \<open>
  The destructor \<^verbatim>\<open>~Writer\<close>: "commits any remaining data to file". What the destructor
  of the base class does afterwards is in file_base.h, which is not among the sources,
  and is not part of the model.
\<close>

definition Writer_close :: "App_env \<Rightarrow> Writer \<Rightarrow> filesystem \<Rightarrow> error + Writer \<times> filesystem" where
  "Writer_close env w fs = Writer_commit env w fs"

text \<open>A sequence of calls of \<^verbatim>\<open>operator()\<close>, as a caller makes them.\<close>

fun WriterUnbuffered_appends ::
  "App_env \<Rightarrow> 'a WriterUnbuffered_scheme \<Rightarrow> filesystem \<Rightarrow> Streamline list
     \<Rightarrow> error + 'a WriterUnbuffered_scheme \<times> filesystem" where
  "WriterUnbuffered_appends env w fs [] = Inr (w, fs)"
| "WriterUnbuffered_appends env w fs (tck # tcks) =
     (case WriterUnbuffered_append env w fs tck of
        Inl e \<Rightarrow> Inl e
      | Inr (ok, w1, fs1) \<Rightarrow> WriterUnbuffered_appends env w1 fs1 tcks)"

fun Writer_appends ::
  "App_env \<Rightarrow> Writer \<Rightarrow> filesystem \<Rightarrow> Streamline list \<Rightarrow> error + Writer \<times> filesystem" where
  "Writer_appends env w fs [] = Inr (w, fs)"
| "Writer_appends env w fs (tck # tcks) =
     (case Writer_append env w fs tck of
        Inl e \<Rightarrow> Inl e
      | Inr (ok, w1, fs1) \<Rightarrow> Writer_appends env w1 fs1 tcks)"


subsection \<open>Reader\<close>

record Reader =
  in_open :: bool
  in_rest :: "float32 Point list"
  rd_dtype :: DataType
  current_index :: nat
  weights :: "float32 list"



text \<open>
  \<^verbatim>\<open>get_next_point\<close>. The result is \<open>None\<close> when the read meets the end of the file.
  The 64-bit datatypes, which the \<^verbatim>\<open>float\<close> writer does not produce, are outside the
  model.
\<close>

definition get_next_point :: "App_env \<Rightarrow> Reader \<Rightarrow> error + float32 Point option \<times> Reader" where
  "get_next_point env r =
     (case rd_dtype r of
        Float32LE \<Rightarrow>
          (case in_rest r of
             [] \<Rightarrow> Inr (None, r)
           | (p0, p1, p2) # rest \<Rightarrow>
               Inr (Some (LE (host_le env) p0, LE (host_le env) p1, LE (host_le env) p2),
                    r\<lparr>in_rest := rest\<rparr>))
      | Float32BE \<Rightarrow>
          (case in_rest r of
             [] \<Rightarrow> Inr (None, r)
           | (p0, p1, p2) # rest \<Rightarrow>
               Inr (Some (BE (host_le env) p0, BE (host_le env) p1, BE (host_le env) p2),
                    r\<lparr>in_rest := rest\<rparr>))
      | Float64LE \<Rightarrow> Inl OutsideModel
      | Float64BE \<Rightarrow> Inl OutsideModel)"






subsection \<open>Predicates used in the statements\<close>

text \<open>
  The state of a writer and its files between two calls: the track file exists, its data
  region is \<open>body\<close> followed by one barrier, \<^verbatim>\<open>barrier_addr\<close> is the offset of that
  barrier, the header declares the datatype of the writer, and a weights file, if one is
  configured, exists and is not the track file.
\<close>

definition writer_state :: "App_env \<Rightarrow> 'a WriterUnbuffered_scheme \<Rightarrow> filesystem \<Rightarrow> float32 Point list \<Rightarrow> bool" where
  "writer_state env w fs body \<longleftrightarrow>
     (case fs (name w) of
        Some (Tracks f) \<Rightarrow>
          data_region f = body @ [format_point env (dtype w) barrier]
          \<and> barrier_addr w = int (hdr_size f) + 12 * int (length body)
          \<and> hdr_dtype f = dtype w
      | _ \<Rightarrow> False)
     \<and> (weights_name w = []
        \<or> (weights_name w \<noteq> name w
           \<and> (case fs (weights_name w) of Some (Text t) \<Rightarrow> True | _ \<Rightarrow> False)))"

text \<open>What \<^verbatim>\<open>WriterUnbuffered::operator()\<close> puts in front of the new barrier.\<close>

definition unbuffered_record :: "App_env \<Rightarrow> DataType \<Rightarrow> Streamline \<Rightarrow> float32 Point list" where
  "unbuffered_record env dt tck =
     (if points tck = [] then []
      else replicate (length (points tck)) (format_point env dt barrier)
           @ [format_point env dt delimiter])"

text \<open>A streamline as the file format holds it: its points, then a delimiter.\<close>

definition track_record :: "App_env \<Rightarrow> DataType \<Rightarrow> Streamline \<Rightarrow> float32 Point list" where
  "track_record env dt tck =
     (if points tck = [] then []
      else map (format_point env dt) (points tck) @ [format_point env dt delimiter])"

text \<open>
  The weights that the buffered writer has handed over so far: the text of the weights
  file followed by \<^verbatim>\<open>weights_buffer\<close>, when a weights file is configured.
\<close>

definition weights_state :: "Writer \<Rightarrow> filesystem \<Rightarrow> string \<Rightarrow> bool" where
  "weights_state w fs wtext \<longleftrightarrow>
     (weights_name w = [] \<and> weights_buffer w = [])
     \<or> (weights_name w \<noteq> []
        \<and> (case fs (weights_name w) of
              Some (Text t) \<Rightarrow> t @ weights_buffer w = wtext
            | _ \<Rightarrow> False))"

definition weights_text :: "App_env \<Rightarrow> Streamline list \<Rightarrow> string" where
  "weights_text env tcks =
     concat (map (\<lambda>tck. if points tck = [] then [] else str_weight env (weight tck) @ '' '') tcks)"

text \<open>
  What a reader with the weights vector \<open>ws\<close> returns for streamlines stored in this
  order, the first of them being number \<open>i\<close>; and what it returns from a file that
  holds the streamlines \<open>tcks\<close>: all of them without a weights vector, and no more of
  them than the vector has entries otherwise.
\<close>

fun read_back :: "float32 list \<Rightarrow> nat \<Rightarrow> Streamline list \<Rightarrow> Streamline list" where
  "read_back ws i [] = []"
| "read_back ws i (tck # tcks) =
     \<lparr> points = points tck, index = i,
       weight = (if ws = [] then float_one else ws ! i) \<rparr> # read_back ws (Suc i) tcks"

definition returned :: "float32 list \<Rightarrow> Streamline list \<Rightarrow> Streamline list" where
  "returned ws tcks = read_back ws 0 (if ws = [] then tcks else take (length ws) tcks)"

definition accepted :: "Streamline list \<Rightarrow> Streamline list" where
  "accepted tcks = filter (\<lambda>tck. points tck \<noteq> []) tcks"


subsection \<open>Concrete configurations used to evaluate the model\<close>

definition fixture_conv :: conv where
  "fixture_conv =
     \<lparr> to_float = (\<lambda>s. if s = ''0.5'' then 1 / 2 else 0), str_float = (\<lambda>x. ''x''),
       to_bool = (\<lambda>s. s = ''1''), str_bool = (\<lambda>b. if b then ''1'' else ''0''),
       to_size = length, str_size = (\<lambda>n. replicate n CHR ''I''),
       to_int = (\<lambda>s. int (length s)), parse_floats = (\<lambda>s. []) \<rparr>"

definition fixture_shared :: "Properties \<Rightarrow> bool \<Rightarrow> SharedBase" where
  "fixture_shared props rk =
     \<lparr> source_name = ''dwi.mif'', source_vox = (1, 1, 1), properties = props, init_dir = None,
       max_num_tracks = 0, max_num_attempts = 0,
       min_num_points = None, max_num_points = None,
       max_angle = None, max_angle_rk4 = None,
       cos_max_angle = None, cos_max_angle_rk4 = None,
       step_size = None, threshold = 1 / 10, init_threshold = 2 / 10,
       unidirectional = False, rk4 = rk, downsampler_ratio = 1,
       terminations = replicate 8 0, rejections = replicate 3 0 \<rparr>"

definition fixture_fact_shared :: SharedBase where
  "fixture_fact_shared =
     (fixture_shared Map.empty False)\<lparr>cos_max_angle := Some (1 / 2), step_size := Some (1 / 10)\<rparr>"

definition fixture_env :: FACT_env where
  "fixture_env =
     \<lparr> sample = (\<lambda>p. if fst p < 10 then Some [fst p] else None),
       dwi2tensor = (\<lambda>v. v),
       tensor2FA = (\<lambda>v. case v of [] \<Rightarrow> 0 | x # _ \<Rightarrow> x / 10),
       principal_ev = (\<lambda>v. case v of [] \<Rightarrow> (1, 0, 0)
                            | x # _ \<Rightarrow> if x < 5 then (- 1, 0, 0) else (0, 1, 0)) \<rparr>"

definition fixture_method :: "real \<Rightarrow> Method" where
  "fixture_method x = \<lparr> pos = (x, 0, 0), dir = (1, 0, 0), values_v = [] \<rparr>"

definition fixture_app :: App_env where
  "fixture_app =
     \<lparr> host_le = True, overwrite_files = True, tck_weights_out = None, tck_weights_in = None,
       TrackWriterBufferSize = Some 24, creatable = (\<lambda>path. path \<noteq> []),
       header_bytes = (\<lambda>props. 100), str_weight = (\<lambda>x. ''1''), load_vector = (\<lambda>t. []) \<rparr>"



definition fixture_point :: "nat \<Rightarrow> float32 Point" where
  "fixture_point n = (of_nat n, 0, 0)"

definition fixture_streamline :: "nat \<Rightarrow> Streamline" where
  "fixture_streamline n = \<lparr> points = map fixture_point [1..<Suc n], index = 0, weight = float_one \<rparr>"

definition fixture_tracks :: tck_file where
  "fixture_tracks =
     \<lparr> hdr_size = 100, hdr_dtype = Float32LE, hdr_properties = Map.empty,
       hdr_count = 0, hdr_total_count = 0, data_region = [barrier] \<rparr>"

definition fixture_unbuffered :: WriterUnbuffered where
  "fixture_unbuffered =
     \<lparr> name = ''out.tck'', dtype = Float32LE, count = 0, total_count = 0, weights_name = [],
       barrier_addr = 100 \<rparr>"

definition fixture_tck123 :: Streamline where
  "fixture_tck123 = \<lparr> points = [(0x3F800000, 0x40000000, 0x40400000)], index = 0, weight = float_one \<rparr>"

definition fixture_writer :: Writer where
  "fixture_writer =
     \<lparr> name = ''out.tck'', dtype = Float32LE, count = 0, total_count = 0, weights_name = [],
       barrier_addr = 100, buffer_capacity = 2, buffer = replicate 4 (0, 0, 0),
       buffer_size = 0, weights_buffer = [], commit_trace = [] \<rparr>"








definition fixture_writer3 :: Writer where
  "fixture_writer3 =
     fixture_writer\<lparr>buffer := [fixture_point 1, fixture_point 2, fixture_point 3, delimiter],
                    buffer_size := 4, count := 1, total_count := 1, commit_trace := [0]\<rparr>"

section \<open>Verified properties\<close>

subsection \<open>SharedBase: thresholds set by the constructor\<close>

lemma fst_Properties_set:
  "fst (Properties_set parse show props v key) =
     (case props key of Some s \<Rightarrow> parse s | None \<Rightarrow> v)"
  by (simp add: Properties_set_def split: option.split)

lemma snd_Properties_set:
  "snd (Properties_set parse show props v key) k =
     (if k = key \<and> props key = None then Some (show v) else props k)"
  by (simp add: Properties_set_def split: option.split)

lemma members_threshold:
  "threshold (SharedBase_members cv nm voxdim props) =
     (case props ''threshold'' of Some s \<Rightarrow> to_float cv s | None \<Rightarrow> 1 / 10)"
  by (simp add: SharedBase_members_def Let_def case_prod_beta fst_Properties_set)

lemma members_init_threshold:
  "init_threshold (SharedBase_members cv nm voxdim props) =
     (case props ''init_threshold'' of Some s \<Rightarrow> to_float cv s
      | None \<Rightarrow> 2 * threshold (SharedBase_members cv nm voxdim props))"
  by (simp add: SharedBase_members_def Let_def case_prod_beta fst_Properties_set
        snd_Properties_set cong: option.case_cong)

lemma ctor_thresholds:
  assumes "SharedBase_ctor cv nm voxdim props = Inr S"
  shows "threshold S = threshold (SharedBase_members cv nm voxdim props)"
    and "init_threshold S = init_threshold (SharedBase_members cv nm voxdim props)"
  using assms
  by (auto simp: SharedBase_ctor_def Let_def split: option.splits list.splits sum.splits)

lemma ctor_fixture_empty:
  "\<exists>S. SharedBase_ctor fixture_conv ''dwi.mif'' (1, 1, 1) Map.empty = Inr S"
  by (simp add: SharedBase_ctor_def SharedBase_members_def Properties_set_def Let_def
        fixture_conv_def)

text \<open>
  C10. A SharedBase constructed from a properties map with neither "threshold" nor
  "init_threshold" has threshold 0.1 and init_threshold 0.2. In general the threshold is
  the property's value when the key is present and 0.1 otherwise, and init_threshold is
  twice that threshold unless the key "init_threshold" is present, in which case it is
  the property's value.
\<close>

theorem C10_default_thresholds:
  assumes "SharedBase_ctor cv nm voxdim props = Inr S"
  shows "(props ''threshold'' = None \<and> props ''init_threshold'' = None \<longrightarrow>
            threshold S = 1 / 10 \<and> init_threshold S = 2 / 10)
       \<and> threshold S = (case props ''threshold'' of Some s \<Rightarrow> to_float cv s | None \<Rightarrow> 1 / 10)
       \<and> init_threshold S =
           (case props ''init_threshold'' of Some s \<Rightarrow> to_float cv s
            | None \<Rightarrow> 2 * threshold S)"
proof -
  let ?M = "SharedBase_members cv nm voxdim props"
  have t: "threshold S = threshold ?M" and i: "init_threshold S = init_threshold ?M"
    using assms by (rule ctor_thresholds)+
  have t': "threshold S = (case props ''threshold'' of Some s \<Rightarrow> to_float cv s | None \<Rightarrow> 1 / 10)"
    by (simp add: t members_threshold)
  have i': "init_threshold S =
      (case props ''init_threshold'' of Some s \<Rightarrow> to_float cv s | None \<Rightarrow> 2 * threshold S)"
    by (simp add: i t members_init_threshold cong: option.case_cong)
  show ?thesis using t' i' by (simp split: option.splits)
qed

theorem C10_default_thresholds_witness:
  "(case SharedBase_ctor fixture_conv ''dwi.mif'' (1, 1, 1) Map.empty of
      Inl e \<Rightarrow> False
    | Inr S \<Rightarrow> threshold S = 1 / 10 \<and> init_threshold S = 2 / 10)
   \<and> (case SharedBase_ctor fixture_conv ''dwi.mif'' (1, 1, 1) [''threshold'' \<mapsto> ''0.5''] of
      Inl e \<Rightarrow> False
    | Inr S \<Rightarrow> threshold S = 1 / 2 \<and> init_threshold S = 1)"
proof -
  obtain S where S: "SharedBase_ctor fixture_conv ''dwi.mif'' (1, 1, 1) Map.empty = Inr S"
    using ctor_fixture_empty by blast
  have a: "threshold S = 1 / 10 \<and> init_threshold S = 2 / 10"
    using C10_default_thresholds [OF S] by simp
  obtain S' where S':
    "SharedBase_ctor fixture_conv ''dwi.mif'' (1, 1, 1) [''threshold'' \<mapsto> ''0.5''] = Inr S'"
    by (simp add: SharedBase_ctor_def SharedBase_members_def Properties_set_def Let_def
          fixture_conv_def)
  have b: "threshold S' = 1 / 2 \<and> init_threshold S' = 1"
    using C10_default_thresholds [OF S'] by (simp add: fixture_conv_def)
  show ?thesis using a b by (simp add: S S')
qed

subsection \<open>SharedBase: set_step_size\<close>

lemma set_step_size_angles:
  "\<not> rk4 S \<Longrightarrow> max_angle (set_step_size cv S r) \<noteq> None \<and>
      cos_max_angle (set_step_size cv S r) = map_option cos (max_angle (set_step_size cv S r))"
  "rk4 S \<Longrightarrow> max_angle (set_step_size cv S r) = Some pi
     \<and> cos_max_angle (set_step_size cv S r) = Some 0
     \<and> max_angle_rk4 (set_step_size cv S r) \<noteq> None
     \<and> cos_max_angle_rk4 (set_step_size cv S r) =
         map_option cos (max_angle_rk4 (set_step_size cv S r))"
  by (simp_all add: set_step_size_def Let_def case_prod_beta)












lemma rk4_fixture: "rk4 (fixture_shared p b) = b"
  by (simp add: fixture_shared_def)

text \<open>
  C4, as stated, fails: with the rk4 flag set, set_step_size leaves max_angle = pi and
  cos_max_angle = 0, while cos pi = -1.
\<close>

theorem C4_rk4_counterexample:
  "cos_max_angle (set_step_size fixture_conv (fixture_shared Map.empty True) (1 / 10)) \<noteq>
     map_option cos (max_angle (set_step_size fixture_conv (fixture_shared Map.empty True) (1 / 10)))"
  using set_step_size_angles(2) [of "fixture_shared Map.empty True" fixture_conv "1 / 10"]
  by (simp add: rk4_fixture)

text \<open>
  C4, amended. After set_step_size without the rk4 flag, max_angle is set and
  cos_max_angle = cos (max_angle). With the rk4 flag, max_angle = pi and
  cos_max_angle = 0, and the invariant holds of the pair kept for the integrator:
  cos_max_angle_rk4 = cos (max_angle_rk4).
\<close>

theorem C4_cos_max_angle:
  "if rk4 S
   then max_angle (set_step_size cv S r) = Some pi
      \<and> cos_max_angle (set_step_size cv S r) = Some 0
      \<and> max_angle_rk4 (set_step_size cv S r) \<noteq> None
      \<and> cos_max_angle_rk4 (set_step_size cv S r) =
          map_option cos (max_angle_rk4 (set_step_size cv S r))
   else max_angle (set_step_size cv S r) \<noteq> None
      \<and> cos_max_angle (set_step_size cv S r) =
          map_option cos (max_angle (set_step_size cv S r))"
  using set_step_size_angles [of S cv r] by simp

theorem C4_cos_max_angle_witness:
  "max_angle (set_step_size fixture_conv (fixture_shared Map.empty False) (1 / 10)) \<noteq> None
   \<and> cos_max_angle (set_step_size fixture_conv (fixture_shared Map.empty False) (1 / 10)) =
       map_option cos (max_angle (set_step_size fixture_conv (fixture_shared Map.empty False) (1 / 10)))
   \<and> max_angle (set_step_size fixture_conv (fixture_shared Map.empty True) (1 / 10)) = Some pi
   \<and> cos_max_angle (set_step_size fixture_conv (fixture_shared Map.empty True) (1 / 10)) = Some 0"
  using C4_cos_max_angle [of "fixture_shared Map.empty False" fixture_conv "1 / 10"]
    C4_cos_max_angle [of "fixture_shared Map.empty True" fixture_conv "1 / 10"]
  by (simp add: rk4_fixture)




subsection \<open>FACT: init and next\<close>

lemma dot_neg_right: "dot a (Point_neg b) = - dot a b"
  by (cases a, cases b) (simp add: dot_def Point_neg_def)

lemma fixture_fact_fields:
  "threshold fixture_fact_shared = 1 / 10"
  "init_threshold fixture_fact_shared = 2 / 10"
  "cos_max_angle fixture_fact_shared = Some (1 / 2)"
  "step_size fixture_fact_shared = Some (1 / 10)"
  by (simp_all add: fixture_fact_shared_def fixture_shared_def)

lemma do_next_result:
  assumes "\<not> tensor2FA env (dwi2tensor env (values_v m)) < threshold S"
    and "cos_max_angle S = Some c" and "step_size S = Some h"
  shows "do_next env S m =
     (let new = principal_ev env (dwi2tensor env (values_v m));
          d = dot (dir m) new;
          m2 = m\<lparr>values_v := dwi2tensor env (values_v m), dir := new\<rparr>
      in if \<bar>d\<bar> < c then Inr (HIGH_CURVATURE, m2)
         else Inr (CONTINUE, m2\<lparr>dir := (if d < 0 then Point_neg new else new),
                    pos := Point_add (pos m) (Point_scale (if d < 0 then Point_neg new else new) h)\<rparr>))"
  using assms by (simp add: do_next_def get_EV_def Let_def)

lemma FACT_init_result:
  "FACT_init env S m =
     (case sample env (pos m) of
        None \<Rightarrow> (False, m)
      | Some v \<Rightarrow>
          if tensor2FA env (dwi2tensor env v) < init_threshold S
          then (False, m\<lparr>values_v := dwi2tensor env v\<rparr>)
          else (True, m\<lparr>values_v := dwi2tensor env v,
                         dir := principal_ev env (dwi2tensor env v)\<rparr>))"
  by (simp add: FACT_init_def do_init_def get_EV_def Let_def split: option.split)

text \<open>
  C1. In a step of FACT that reaches the new direction (the position is sampled and the
  anisotropy is not below the threshold), with prev the previous direction and new the
  direction computed by get_EV: next returns HIGH_CURVATURE exactly when
  |prev . new| < cos_max_angle, the dot product being taken before any sign correction;
  otherwise the new direction is negated if prev . new < 0, so that the dot product
  with the corrected direction is not negative, the position is advanced by the
  corrected direction times step_size, and CONTINUE is returned.
\<close>

theorem C1_next_curvature:
  assumes "sample env (pos m) = Some v"
    and "\<not> tensor2FA env (dwi2tensor env v) < threshold S"
    and "cos_max_angle S = Some c" and "step_size S = Some h"
    and "prev = dir m" and "new = principal_ev env (dwi2tensor env v)"
    and "corrected = (if dot prev new < 0 then Point_neg new else new)"
  shows "((\<exists>m'. FACT_next env S m = Inr (HIGH_CURVATURE, m')) \<longleftrightarrow> \<bar>dot prev new\<bar> < c)
       \<and> (\<not> \<bar>dot prev new\<bar> < c \<longrightarrow>
            0 \<le> dot prev corrected
          \<and> FACT_next env S m =
              Inr (CONTINUE, \<lparr>pos = Point_add (pos m) (Point_scale corrected h), dir = corrected,
                                values_v = dwi2tensor env v\<rparr>))"
proof -
  have r: "FACT_next env S m = do_next env S (m\<lparr>values_v := v\<rparr>)"
    using assms(1) by (simp add: FACT_next_def)
  have n: "do_next env S (m\<lparr>values_v := v\<rparr>) =
      (if \<bar>dot prev new\<bar> < c
       then Inr (HIGH_CURVATURE, m\<lparr>values_v := dwi2tensor env v, dir := new\<rparr>)
       else Inr (CONTINUE, \<lparr>pos = Point_add (pos m) (Point_scale corrected h), dir = corrected,
                                values_v = dwi2tensor env v\<rparr>))"
    using assms(2-7) by (subst do_next_result [where c = c and h = h]) (simp_all add: Let_def)
  have d: "0 \<le> dot prev corrected"
    by (simp add: assms(7) dot_neg_right)
  show ?thesis using d by (simp add: r n)
qed

theorem C1_next_curvature_witness:
  "FACT_next fixture_env fixture_fact_shared (fixture_method 2) =
     Inr (CONTINUE, \<lparr>pos = (21 / 10, 0, 0), dir = (1, 0, 0), values_v = [2]\<rparr>)
   \<and> (\<exists>m'. FACT_next fixture_env fixture_fact_shared (fixture_method 7) =
              Inr (HIGH_CURVATURE, m'))"
proof -
  have s2: "sample fixture_env (pos (fixture_method 2)) = Some [2]"
    and s7: "sample fixture_env (pos (fixture_method 7)) = Some [7]"
    by (simp_all add: fixture_env_def fixture_method_def)
  have f2: "\<not> tensor2FA fixture_env (dwi2tensor fixture_env [2]) < threshold fixture_fact_shared"
    and f7: "\<not> tensor2FA fixture_env (dwi2tensor fixture_env [7]) < threshold fixture_fact_shared"
    by (simp_all add: fixture_env_def fixture_fact_fields)
  have e2: "principal_ev fixture_env (dwi2tensor fixture_env [2]) = (- 1, 0, 0)"
    and e7: "principal_ev fixture_env (dwi2tensor fixture_env [7]) = (0, 1, 0)"
    by (simp_all add: fixture_env_def)
  have d2: "dot (1, 0, 0) (- 1, 0, 0) = - 1" and d7: "dot (1, 0, 0) (0, 1, 0) = 0"
    by (simp_all add: dot_def)
  have a: "FACT_next fixture_env fixture_fact_shared (fixture_method 2) =
     Inr (CONTINUE, \<lparr>pos = (21 / 10, 0, 0), dir = (1, 0, 0), values_v = [2]\<rparr>)"
    using C1_next_curvature [OF s2 f2 fixture_fact_fields(3) fixture_fact_fields(4) refl refl refl]
    by (simp add: e2 d2 fixture_method_def Point_neg_def Point_add_def Point_scale_def
          fixture_env_def)
  have b: "\<exists>m'. FACT_next fixture_env fixture_fact_shared (fixture_method 7) =
              Inr (HIGH_CURVATURE, m')"
    using C1_next_curvature [OF s7 f7 fixture_fact_fields(3) fixture_fact_fields(4) refl refl refl]
    by (simp add: e7 d7 fixture_method_def)
  show ?thesis using a b by simp
qed

text \<open>
  C9. init returns false exactly when the seed position cannot be sampled or the
  anisotropy there is below init_threshold, and otherwise sets the direction to the
  principal eigenvector; next returns EXIT_IMAGE when the position cannot be sampled and
  BAD_SIGNAL when the anisotropy is below threshold.
\<close>

theorem C9_init_next_failures:
  "(fst (FACT_init env S m) = False \<longleftrightarrow>
      (sample env (pos m) = None
       \<or> (\<exists>v. sample env (pos m) = Some v
              \<and> tensor2FA env (dwi2tensor env v) < init_threshold S)))
   \<and> (\<forall>v. sample env (pos m) = Some v
           \<and> \<not> tensor2FA env (dwi2tensor env v) < init_threshold S \<longrightarrow>
         FACT_init env S m = (True, m\<lparr>values_v := dwi2tensor env v,
                                       dir := principal_ev env (dwi2tensor env v)\<rparr>))
   \<and> (sample env (pos m) = None \<longrightarrow> FACT_next env S m = Inr (EXIT_IMAGE, m))
   \<and> (\<forall>v. sample env (pos m) = Some v \<and> tensor2FA env (dwi2tensor env v) < threshold S \<longrightarrow>
         FACT_next env S m = Inr (BAD_SIGNAL, m\<lparr>values_v := dwi2tensor env v\<rparr>))"
  by (auto simp: FACT_init_result FACT_next_def do_next_def Let_def split: option.splits)

theorem C9_init_next_failures_witness:
  "fst (FACT_init fixture_env fixture_fact_shared (fixture_method 20)) = False
   \<and> fst (FACT_init fixture_env fixture_fact_shared (fixture_method 1)) = False
   \<and> FACT_init fixture_env fixture_fact_shared (fixture_method 7) =
       (True, \<lparr>pos = (7, 0, 0), dir = (0, 1, 0), values_v = [7]\<rparr>)
   \<and> FACT_next fixture_env fixture_fact_shared (fixture_method 20) =
       Inr (EXIT_IMAGE, fixture_method 20)
   \<and> FACT_next fixture_env fixture_fact_shared (fixture_method 0) =
       Inr (BAD_SIGNAL, \<lparr>pos = (0, 0, 0), dir = (1, 0, 0), values_v = [0]\<rparr>)"
proof -
  have a: "fst (FACT_init fixture_env fixture_fact_shared (fixture_method 20)) = False"
    and d: "FACT_next fixture_env fixture_fact_shared (fixture_method 20) =
       Inr (EXIT_IMAGE, fixture_method 20)"
    using C9_init_next_failures [of fixture_env fixture_fact_shared "fixture_method 20"]
    by (simp_all add: fixture_env_def fixture_method_def)
  have b: "fst (FACT_init fixture_env fixture_fact_shared (fixture_method 1)) = False"
    using C9_init_next_failures [of fixture_env fixture_fact_shared "fixture_method 1"]
    by (simp add: fixture_env_def fixture_method_def fixture_fact_fields)
  have c: "FACT_init fixture_env fixture_fact_shared (fixture_method 7) =
       (True, \<lparr>pos = (7, 0, 0), dir = (0, 1, 0), values_v = [7]\<rparr>)"
    using C9_init_next_failures [of fixture_env fixture_fact_shared "fixture_method 7"]
    by (simp add: fixture_env_def fixture_method_def fixture_fact_fields)
  have e: "FACT_next fixture_env fixture_fact_shared (fixture_method 0) =
       Inr (BAD_SIGNAL, \<lparr>pos = (0, 0, 0), dir = (1, 0, 0), values_v = [0]\<rparr>)"
    using C9_init_next_failures [of fixture_env fixture_fact_shared "fixture_method 0"]
    by (simp add: fixture_env_def fixture_method_def fixture_fact_fields)
  show ?thesis using a b c d e by simp
qed

subsection \<open>Track files: the unbuffered writer\<close>

lemma take_tl_update_last:
  assumes "0 < n" "n < length data"
  shows "take n (tl (data[n := x])) = take (n - 1) (tl data) @ [x]"
proof -
  obtain m where m: "n = Suc m" using assms(1) by (cases n) auto
  obtain d ds where d: "data = d # ds" using assms(2) by (cases data) auto
  have l: "m < length ds" using assms(2) m d by simp
  show ?thesis using l by (simp add: m d take_Suc_conv_app_nth)
qed

lemma head_take_tail:
  assumes "0 < n" "n < length data"
  shows "data ! 0 # take (n - 1) (tl data) = take n data"
proof -
  obtain m where m: "n = Suc m" using assms(1) by (cases n) auto
  obtain d ds where d: "data = d # ds" using assms(2) by (cases data) auto
  show ?thesis by (simp add: m d)
qed

lemma write_point_at_slot:
  assumes "data_region f = body @ b # rest"
    and "addr = int (hdr_size f) + 12 * int (length body)"
  shows "write_point_at f addr p = Inr (f\<lparr>data_region := body @ p # rest\<rparr>)"
  using assms by (simp add: write_point_at_def Let_def)

lemma commit_file:
  assumes f: "fs (name w) = Some (Tracks f)"
    and d: "data_region f = body @ [b]"
    and a: "barrier_addr w = int (hdr_size f) + 12 * int (length body)"
    and n: "0 < n" "n < length data"
  shows "WriterUnbuffered_commit env w fs data n =
     Inr (data[n := format_point env (dtype w) barrier],
          w\<lparr>barrier_addr := int (hdr_size f) + 12 * int (length body + n)\<rparr>,
          fs(name w \<mapsto> Tracks (f\<lparr>data_region := body @ take n data
                                        @ [format_point env (dtype w) barrier],
                                   hdr_count := count w, hdr_total_count := total_count w\<rparr>)))"
proof -
  let ?x = "format_point env (dtype w) barrier"
  let ?data1 = "data[n := ?x]"
  let ?f1 = "f\<lparr>data_region := data_region f @ take n (tl ?data1)\<rparr>"
  have t: "take n (tl ?data1) = take (n - 1) (tl data) @ [?x]"
    by (rule take_tl_update_last [OF n])
  have d1: "data_region ?f1 = body @ b # (take (n - 1) (tl data) @ [?x])"
    by (simp add: d t)
  have e: "file_end ?f1 - 12 = int (hdr_size f) + 12 * int (length body + n)"
    using n by (simp add: file_end_def d t)
  have z: "?data1 ! 0 = data ! 0" using n by simp
  have h: "hdr_size ?f1 = hdr_size f" by simp
  have wp: "write_point_at ?f1 (barrier_addr w) (data ! 0) =
      Inr (?f1\<lparr>data_region := body @ data ! 0 # (take (n - 1) (tl data) @ [?x])\<rparr>)"
    by (rule write_point_at_slot [OF d1]) (simp add: a)
  have r: "data ! 0 # take (n - Suc 0) (tl data) @ [?x] = take n data @ [?x]"
    using head_take_tail [OF n] by simp
  show ?thesis
    using n by (simp add: WriterUnbuffered_commit_def Let_def f wp e r update_counts_def)
qed

lemma fill_buffer_replicate:
  "k \<le> length buf \<Longrightarrow> fill_buffer env dt k buf = replicate k (format_point env dt barrier) @ drop k buf"
proof (induction k)
  case 0
  then show ?case by (simp add: fill_buffer_def)
next
  case (Suc k)
  let ?x = "format_point env dt barrier"
  have k: "k < length buf" using Suc.prems by simp
  have "fill_buffer env dt (Suc k) buf = (fill_buffer env dt k buf)[k := ?x]"
    by (simp add: fill_buffer_def)
  also have "\<dots> = (replicate k ?x @ drop k buf)[k := ?x]"
    using Suc.IH k by simp
  also have "\<dots> = replicate k ?x @ (drop k buf)[0 := ?x]"
    by (simp add: list_update_append)
  also have "\<dots> = replicate k ?x @ ?x # drop (Suc k) buf"
    using k by (simp add: Cons_nth_drop_Suc [symmetric])
  also have "\<dots> = replicate (Suc k) ?x @ drop (Suc k) buf"
    by (simp add: replicate_append_same)
  finally show ?case .
qed

lemma operator_buffer_eq:
  "operator_buffer env dt tck =
     replicate (length (points tck)) (format_point env dt barrier)
     @ [format_point env dt delimiter, (0, 0, 0)]"
proof -
  let ?n = "length (points tck)"
  let ?x = "format_point env dt barrier"
  have l: "?n \<le> length (replicate (?n + 2) (0 :: float32, 0 :: float32, 0 :: float32))"
    by simp
  have r0: "fill_buffer env dt ?n (replicate (?n + 2) (0, 0, 0)) =
      replicate ?n ?x @ drop ?n (replicate (?n + 2) (0, 0, 0))"
    by (rule fill_buffer_replicate [OF l])
  have r1: "drop ?n (replicate (?n + 2) (0 :: float32, 0 :: float32, 0 :: float32)) =
      [(0, 0, 0), (0, 0, 0)]"
    by (simp only: drop_replicate) (simp add: numeral_2_eq_2)
  show ?thesis
    unfolding operator_buffer_def Let_def r0 r1 by (simp add: list_update_append)
qed

lemma writer_stateD:
  assumes "writer_state env w fs body"
  obtains f where "fs (name w) = Some (Tracks f)"
    and "data_region f = body @ [format_point env (dtype w) barrier]"
    and "barrier_addr w = int (hdr_size f) + 12 * int (length body)"
  using assms by (auto simp: writer_state_def split: option.splits fs_file.splits)

lemma writer_state_dtype:
  assumes "writer_state env w fs body" "fs (name w) = Some (Tracks f)"
  shows "hdr_dtype f = dtype w"
  using assms by (simp add: writer_state_def)

lemma writer_state_weights:
  assumes "writer_state env w fs body" "weights_name w \<noteq> []"
  obtains t where "fs (weights_name w) = Some (Text t)" and "weights_name w \<noteq> name w"
  using assms by (auto simp: writer_state_def split: option.splits fs_file.splits)

lemma writer_state_counts [simp]:
  "writer_state env (w\<lparr>total_count := c\<rparr>) fs body = writer_state env w fs body"
  "writer_state env (w\<lparr>count := c\<rparr>) fs body = writer_state env w fs body"
  by (simp_all add: writer_state_def split: option.split fs_file.split)

lemma unbuffered_append_empty:
  "points tck = [] \<Longrightarrow>
     WriterUnbuffered_append env w fs tck = Inr (True, w\<lparr>total_count := total_count w + 1\<rparr>, fs)"
  by (simp add: WriterUnbuffered_append_def)

lemma unbuffered_append_state:
  assumes s: "writer_state env w fs body"
  shows "\<exists>w' fs'. WriterUnbuffered_append env w fs tck = Inr (True, w', fs')
           \<and> writer_state env w' fs' (body @ unbuffered_record env (dtype w) tck)
           \<and> name w' = name w \<and> dtype w' = dtype w \<and> weights_name w' = weights_name w
           \<and> count w' = count w + (if points tck = [] then 0 else 1)
           \<and> total_count w' = total_count w + 1"
proof (cases "points tck = []")
  case True
  then show ?thesis using s
    by (simp add: unbuffered_append_empty unbuffered_record_def)
next
  case False
  let ?n = "length (points tck)"
  let ?x = "format_point env (dtype w) barrier"
  let ?d = "format_point env (dtype w) delimiter"
  let ?buf = "operator_buffer env (dtype w) tck"
  obtain f where f: "fs (name w) = Some (Tracks f)"
    and d: "data_region f = body @ [?x]"
    and a: "barrier_addr w = int (hdr_size f) + 12 * int (length body)"
    using s by (rule writer_stateD)
  have h: "hdr_dtype f = dtype w" using s f by (rule writer_state_dtype)
  have b: "?buf = replicate ?n ?x @ [?d, (0, 0, 0)]"
    by (rule operator_buffer_eq)
  have t: "take (Suc ?n) ?buf = replicate ?n ?x @ [?d]"
    by (simp add: b)
  let ?w1 = "w\<lparr>barrier_addr := int (hdr_size f) + 12 * int (length body + (?n + 1))\<rparr>"
  let ?f1 = "f\<lparr>data_region := body @ take (?n + 1) ?buf @ [?x],
                 hdr_count := count w, hdr_total_count := total_count w\<rparr>"
  have c: "WriterUnbuffered_commit env w fs ?buf (?n + 1) =
      Inr (?buf[?n + 1 := ?x], ?w1, fs(name w \<mapsto> Tracks ?f1))"
    by (rule commit_file [where fs = fs and w = w and f = f and body = body, OF f d a])
       (simp_all add: b)
  let ?fs1 = "fs(name w \<mapsto> Tracks ?f1)"
  let ?w2 = "?w1\<lparr>count := count w + 1, total_count := total_count w + 1\<rparr>"
  show ?thesis
  proof (cases "weights_name w = []")
    case True
    have r: "WriterUnbuffered_append env w fs tck = Inr (True, ?w2, ?fs1)"
      using False True c by (simp add: WriterUnbuffered_append_def Let_def)
    have st: "writer_state env ?w2 ?fs1 (body @ unbuffered_record env (dtype w) tck)"
      using False True h by (simp add: writer_state_def unbuffered_record_def t)
    show ?thesis using r st False by simp
  next
    case wn: False
    obtain tx where tx: "fs (weights_name w) = Some (Text tx)" and ne: "weights_name w \<noteq> name w"
      using s wn by (rule writer_state_weights)
    let ?fs2 = "?fs1(weights_name w \<mapsto> Text (tx @ str_weight env (weight tck) @ [CHR 0x0A]))"
    have ww: "write_weights ?w1 ?fs1 (str_weight env (weight tck) @ [CHR 0x0A]) = Inr ?fs2"
      using tx ne by (simp add: write_weights_def)
    have r: "WriterUnbuffered_append env w fs tck = Inr (True, ?w2, ?fs2)"
      using False wn ww c by (simp add: WriterUnbuffered_append_def Let_def)
    have st: "writer_state env ?w2 ?fs2 (body @ unbuffered_record env (dtype w) tck)"
      using False wn ne h by (simp add: writer_state_def unbuffered_record_def t)
    show ?thesis using r st False by simp
  qed
qed

lemma unbuffered_ctor_state:
  assumes c: "WriterUnbuffered_ctor env fs file dt props = Inr (w, fs0)"
    and ne: "tck_weights_out env \<noteq> Some file"
  shows "writer_state env w fs0 [] \<and> name w = file \<and> dtype w = dt
       \<and> count w = 0 \<and> total_count w = 0"
proof (cases "tck_weights_out env")
  case None
  then show ?thesis using c
    by (auto simp: WriterUnbuffered_ctor_def Let_def writer_state_def create_def file_end_def
          split: if_splits)
next
  case (Some path)
  then have "path \<noteq> file" using ne by simp
  then show ?thesis using c Some
    by (auto simp: WriterUnbuffered_ctor_def Let_def writer_state_def create_def file_end_def
          set_weights_path_def split: if_splits)
qed

lemma unbuffered_appends_state:
  assumes "writer_state env w fs body"
  shows "\<exists>w' fs'. WriterUnbuffered_appends env w fs tcks = Inr (w', fs')
           \<and> writer_state env w' fs' (body @ concat (map (unbuffered_record env (dtype w)) tcks))
           \<and> name w' = name w \<and> dtype w' = dtype w
           \<and> count w' = count w + length (filter (\<lambda>t. points t \<noteq> []) tcks)
           \<and> total_count w' = total_count w + length tcks"
  using assms
proof (induction tcks arbitrary: w fs body)
  case Nil
  then show ?case by simp
next
  case (Cons tck tcks)
  obtain w1 fs1 where a: "WriterUnbuffered_append env w fs tck = Inr (True, w1, fs1)"
    and s1: "writer_state env w1 fs1 (body @ unbuffered_record env (dtype w) tck)"
    and n1: "name w1 = name w" "dtype w1 = dtype w"
    and c1: "count w1 = count w + (if points tck = [] then 0 else 1)"
    and t1: "total_count w1 = total_count w + 1"
    using unbuffered_append_state [OF Cons.prems, of tck] by blast
  obtain w' fs' where r: "WriterUnbuffered_appends env w1 fs1 tcks = Inr (w', fs')"
    and s': "writer_state env w' fs'
        ((body @ unbuffered_record env (dtype w) tck)
            @ concat (map (unbuffered_record env (dtype w1)) tcks))"
    and n': "name w' = name w1" "dtype w' = dtype w1"
    and c': "count w' = count w1 + length (filter (\<lambda>t. points t \<noteq> []) tcks)"
    and t': "total_count w' = total_count w1 + length tcks"
    using Cons.IH [OF s1] by blast
  show ?case using a r s' n' c' t' n1 c1 t1 by simp
qed

lemma last_unbuffered_records:
  "\<not> (\<forall>t\<in>set tcks. points t = []) \<Longrightarrow>
     concat (map (unbuffered_record env dt) tcks) \<noteq> []
     \<and> last (concat (map (unbuffered_record env dt) tcks)) = format_point env dt delimiter"
proof (induction tcks)
  case Nil
  then show ?case by simp
next
  case (Cons t tcks)
  show ?case
  proof (cases "\<forall>t\<in>set tcks. points t = []")
    case True
    then have e: "concat (map (unbuffered_record env dt) tcks) = []"
      by (simp add: unbuffered_record_def)
    have "points t \<noteq> []" using Cons.prems True by simp
    then have r: "unbuffered_record env dt t =
        replicate (length (points t)) (format_point env dt barrier) @ [format_point env dt delimiter]"
      by (simp add: unbuffered_record_def)
    show ?thesis by (simp add: e r)
  next
    case False
    then show ?thesis using Cons.IH by simp
  qed
qed

lemma empty_unbuffered_records:
  "\<forall>t\<in>set tcks. points t = [] \<Longrightarrow> concat (map (unbuffered_record env dt) tcks) = []"
  by (simp add: unbuffered_record_def)

lemma format_point_fixture: "format_point fixture_app Float32LE p = p"
  by (cases p) (simp add: format_point_def is_little_endian_def LE_def fixture_app_def)

lemma fixture_unbuffered_ctor:
  "WriterUnbuffered_ctor fixture_app Map.empty ''out.tck'' Float32LE Map.empty =
     Inr (fixture_unbuffered, [''out.tck'' \<mapsto> Tracks fixture_tracks])"
proof -
  have a: "creatable fixture_app ''out.tck''" "tck_weights_out fixture_app = None"
    "header_bytes fixture_app Map.empty = 100"
    by (simp_all add: fixture_app_def)
  show ?thesis
    by (simp add: WriterUnbuffered_ctor_def Let_def a create_def file_end_def
          format_point_fixture fixture_unbuffered_def fixture_tracks_def)
qed

text \<open>
  The unbuffered writer: after any number K of calls of operator() on a writer created
  by the constructor (K = 0 included), the data region of its file ends with one barrier
  (all-Infinity) point, barrier_addr is the offset of that barrier, and the barrier
  comes immediately after the last delimiter that was written, or immediately after the
  header when no streamline has been written.
\<close>

lemma unbuffered_barrier_at_end:
  assumes "WriterUnbuffered_ctor env fs file dt props = Inr (w0, fs0)"
    and "tck_weights_out env \<noteq> Some file"
  shows "\<exists>w fs' f body.
           WriterUnbuffered_appends env w0 fs0 tcks = Inr (w, fs')
         \<and> fs' file = Some (Tracks f)
         \<and> data_region f = body @ [format_point env dt barrier]
         \<and> barrier_addr w = int (hdr_size f) + 12 * int (length body)
         \<and> (if \<forall>tck\<in>set tcks. points tck = [] then body = []
             else last body = format_point env dt delimiter)"
proof -
  have s0: "writer_state env w0 fs0 []" and n0: "name w0 = file" "dtype w0 = dt"
    using unbuffered_ctor_state [OF assms] by simp_all
  obtain w fs' where r: "WriterUnbuffered_appends env w0 fs0 tcks = Inr (w, fs')"
    and s: "writer_state env w fs' ([] @ concat (map (unbuffered_record env (dtype w0)) tcks))"
    and n: "name w = name w0" "dtype w = dtype w0"
    using unbuffered_appends_state [OF s0, of tcks] by blast
  let ?body = "concat (map (unbuffered_record env dt) tcks)"
  have s': "writer_state env w fs' ?body" using s n0 by simp
  obtain f where f: "fs' (name w) = Some (Tracks f)"
    and d: "data_region f = ?body @ [format_point env (dtype w) barrier]"
    and a: "barrier_addr w = int (hdr_size f) + 12 * int (length ?body)"
    using s' by (rule writer_stateD)
  have e: "if \<forall>tck\<in>set tcks. points tck = [] then ?body = []
           else last ?body = format_point env dt delimiter"
    using last_unbuffered_records [of tcks env dt] empty_unbuffered_records [of tcks env dt]
    by simp
  show ?thesis using r f d a e n n0 by auto
qed

lemma unbuffered_barrier_at_end_fixture:
  "\<exists>w fs' f body.
      WriterUnbuffered_appends fixture_app fixture_unbuffered
        [''out.tck'' \<mapsto> Tracks fixture_tracks] [fixture_streamline 2, fixture_streamline 0] = Inr (w, fs')
    \<and> fs' ''out.tck'' = Some (Tracks f)
    \<and> data_region f = body @ [barrier]
    \<and> barrier_addr w = int (hdr_size f) + 12 * int (length body)
    \<and> last body = delimiter"
proof -
  have n: "tck_weights_out fixture_app \<noteq> Some ''out.tck''" by (simp add: fixture_app_def)
  have p: "\<not> (\<forall>tck\<in>set [fixture_streamline 2, fixture_streamline 0]. points tck = [])"
    by (simp add: fixture_streamline_def)
  obtain w fs' f body where
    r: "WriterUnbuffered_appends fixture_app fixture_unbuffered
          [''out.tck'' \<mapsto> Tracks fixture_tracks] [fixture_streamline 2, fixture_streamline 0] =
        Inr (w, fs')"
    and f: "fs' ''out.tck'' = Some (Tracks f)"
    and d: "data_region f = body @ [format_point fixture_app Float32LE barrier]"
    and a: "barrier_addr w = int (hdr_size f) + 12 * int (length body)"
    and e: "if \<forall>tck\<in>set [fixture_streamline 2, fixture_streamline 0]. points tck = []
            then body = [] else last body = format_point fixture_app Float32LE delimiter"
    using unbuffered_barrier_at_end [OF fixture_unbuffered_ctor n,
        of "[fixture_streamline 2, fixture_streamline 0]"]
    by blast
  have l: "last body = delimiter"
    using e p unfolding format_point_fixture by (simp only: if_False)
  have d': "data_region f = body @ [barrier]"
    using d unfolding format_point_fixture .
  show ?thesis using r f d' a l by blast
qed

lemma fixture_unbuffered_append:
  "WriterUnbuffered_append fixture_app fixture_unbuffered
      [''out.tck'' \<mapsto> Tracks fixture_tracks] fixture_tck123 =
     Inr (True,
          fixture_unbuffered\<lparr>barrier_addr := 124, count := 1, total_count := 1\<rparr>,
          [''out.tck'' \<mapsto> Tracks (fixture_tracks\<lparr>data_region := [barrier, delimiter, barrier]\<rparr>)])"
proof -
  have f: "[''out.tck'' \<mapsto> Tracks fixture_tracks] (name fixture_unbuffered) = Some (Tracks fixture_tracks)"
    by (simp add: fixture_unbuffered_def)
  have d: "data_region fixture_tracks = [] @ [barrier]" by (simp add: fixture_tracks_def)
  have a: "barrier_addr fixture_unbuffered = int (hdr_size fixture_tracks) + 12 * int (length ([] :: float32 Point list))"
    by (simp add: fixture_unbuffered_def fixture_tracks_def)
  have b: "operator_buffer fixture_app Float32LE fixture_tck123 = [barrier, delimiter, (0, 0, 0)]"
    by (simp add: operator_buffer_eq format_point_fixture fixture_tck123_def)
  have dt: "dtype fixture_unbuffered = Float32LE" by (simp add: fixture_unbuffered_def)
  have c: "WriterUnbuffered_commit fixture_app fixture_unbuffered
      [''out.tck'' \<mapsto> Tracks fixture_tracks] [barrier, delimiter, (0, 0, 0)] (1 + 1) =
      Inr ([barrier, delimiter, barrier],
           fixture_unbuffered\<lparr>barrier_addr := 124\<rparr>,
           [''out.tck'' \<mapsto> Tracks (fixture_tracks\<lparr>data_region := [barrier, delimiter, barrier]\<rparr>)])"
    using commit_file [where env = fixture_app and data = "[barrier, delimiter, (0, 0, 0)]"
        and n = "1 + 1" and w = fixture_unbuffered and f = fixture_tracks and body = "[]"
        and fs = "[''out.tck'' \<mapsto> Tracks fixture_tracks]", OF f d a]
    by (simp add: dt format_point_fixture) (simp add: fixture_unbuffered_def fixture_tracks_def)
  have l: "length (points fixture_tck123) = 1" "weight fixture_tck123 = float_one"
    by (simp_all add: fixture_tck123_def)
  have r: "WriterUnbuffered_append fixture_app fixture_unbuffered
      [''out.tck'' \<mapsto> Tracks fixture_tracks] fixture_tck123 =
     Inr (True,
          fixture_unbuffered\<lparr>barrier_addr := 124, count := 1, total_count := 1\<rparr>,
          [''out.tck'' \<mapsto> Tracks (fixture_tracks\<lparr>data_region := [barrier, delimiter, barrier]\<rparr>)])"
    unfolding WriterUnbuffered_append_def l dt b c by (simp add: fixture_unbuffered_def)
  show ?thesis by (rule r)
qed

text \<open>
  C2, evaluated on the code. Appending the one-point streamline (1.0, 2.0, 3.0) with
  WriterUnbuffered::operator() to a new file writes, from the previous barrier offset
  on, a barrier point, the delimiter and the new barrier: the point itself is not
  written, since the loop formats barrier() into every element of the buffer.
\<close>

theorem C2_append_writes_barrier_for_points:
  "WriterUnbuffered_append fixture_app fixture_unbuffered
      [''out.tck'' \<mapsto> Tracks fixture_tracks] fixture_tck123 =
     Inr (True,
          fixture_unbuffered\<lparr>barrier_addr := 124, count := 1, total_count := 1\<rparr>,
          [''out.tck'' \<mapsto> Tracks (fixture_tracks\<lparr>data_region := [barrier, delimiter, barrier]\<rparr>)])
   \<and> [barrier, delimiter, barrier] \<noteq> [(0x3F800000, 0x40000000, 0x40400000), delimiter, barrier]"
proof -
  have ne: "[barrier, delimiter, barrier] \<noteq> [(0x3F800000, 0x40000000, 0x40400000), delimiter, barrier]"
    by (simp add: barrier_def INFINITY_def)
  show ?thesis using fixture_unbuffered_append ne by simp
qed

text \<open>
  C7, as stated, fails: after a streamline has been written (count = 1),
  set_weights_path succeeds and creates the weights file.
\<close>

theorem C7_after_append_counterexample:
  "WriterUnbuffered_append fixture_app fixture_unbuffered
      [''out.tck'' \<mapsto> Tracks fixture_tracks] fixture_tck123 =
     Inr (True,
          fixture_unbuffered\<lparr>barrier_addr := 124, count := 1, total_count := 1\<rparr>,
          [''out.tck'' \<mapsto> Tracks (fixture_tracks\<lparr>data_region := [barrier, delimiter, barrier]\<rparr>)])
   \<and> set_weights_path fixture_app
        (fixture_unbuffered\<lparr>barrier_addr := 124, count := 1, total_count := 1\<rparr>)
        [''out.tck'' \<mapsto> Tracks (fixture_tracks\<lparr>data_region := [barrier, delimiter, barrier]\<rparr>)]
        ''weights.txt'' =
     Inr (fixture_unbuffered\<lparr>barrier_addr := 124, count := 1, total_count := 1,
                              weights_name := ''weights.txt''\<rparr>,
          [''out.tck'' \<mapsto> Tracks (fixture_tracks\<lparr>data_region := [barrier, delimiter, barrier]\<rparr>),
           ''weights.txt'' \<mapsto> Text []])"
proof -
  have "set_weights_path fixture_app
        (fixture_unbuffered\<lparr>barrier_addr := 124, count := 1, total_count := 1\<rparr>)
        [''out.tck'' \<mapsto> Tracks (fixture_tracks\<lparr>data_region := [barrier, delimiter, barrier]\<rparr>)]
        ''weights.txt'' =
     Inr (fixture_unbuffered\<lparr>barrier_addr := 124, count := 1, total_count := 1,
                              weights_name := ''weights.txt''\<rparr>,
          [''out.tck'' \<mapsto> Tracks (fixture_tracks\<lparr>data_region := [barrier, delimiter, barrier]\<rparr>),
           ''weights.txt'' \<mapsto> Text []])"
    by (simp add: set_weights_path_def Let_def fixture_unbuffered_def fixture_app_def)
  then show ?thesis using fixture_unbuffered_append by simp
qed

text \<open>
  C7, amended. set_weights_path fails whenever a weights path has already been set for
  the writer. When none has been set, overwriting files is allowed and the file can be
  created, it succeeds, creating an empty weights file and recording its path, whether
  or not streamlines have been written before.
\<close>

theorem C7_set_weights_path:
  "(weights_name w \<noteq> [] \<longrightarrow>
      set_weights_path env w fs path =
        Inl (Exception ''Cannot change output streamline weights file path''))
   \<and> (weights_name w = [] \<and> overwrite_files env \<and> creatable env path \<longrightarrow>
      set_weights_path env w fs path = Inr (w\<lparr>weights_name := path\<rparr>, fs(path \<mapsto> Text [])))"
  by (simp add: set_weights_path_def Let_def)

theorem C7_set_weights_path_witness:
  "set_weights_path fixture_app (fixture_unbuffered\<lparr>weights_name := ''w.txt''\<rparr>)
      [''out.tck'' \<mapsto> Tracks fixture_tracks] ''v.txt'' =
     Inl (Exception ''Cannot change output streamline weights file path'')
   \<and> set_weights_path fixture_app (fixture_unbuffered\<lparr>count := 5\<rparr>)
      [''out.tck'' \<mapsto> Tracks fixture_tracks] ''v.txt'' =
     Inr (fixture_unbuffered\<lparr>count := 5, weights_name := ''v.txt''\<rparr>,
          [''out.tck'' \<mapsto> Tracks fixture_tracks, ''v.txt'' \<mapsto> Text []])"
  using C7_set_weights_path [of "fixture_unbuffered\<lparr>weights_name := ''w.txt''\<rparr>" fixture_app
      "[''out.tck'' \<mapsto> Tracks fixture_tracks]" "''v.txt''"]
    C7_set_weights_path [of "fixture_unbuffered\<lparr>count := 5\<rparr>" fixture_app
      "[''out.tck'' \<mapsto> Tracks fixture_tracks]" "''v.txt''"]
  by (simp add: fixture_unbuffered_def fixture_app_def)

subsection \<open>Track files: the buffered writer\<close>






lemma add_points_buffer:
  assumes "buffer_size w + length ps \<le> length (buffer w)"
  shows "add_points env w ps =
     Inr (w\<lparr>buffer := take (buffer_size w) (buffer w) @ map (format_point env (dtype w)) ps
                       @ drop (buffer_size w + length ps) (buffer w),
             buffer_size := buffer_size w + length ps\<rparr>)"
  using assms
proof (induction ps arbitrary: w)
  case Nil
  then show ?case by simp
next
  case (Cons p ps)
  let ?k = "buffer_size w"
  let ?x = "format_point env (dtype w) p"
  let ?w1 = "w\<lparr>buffer := (buffer w)[?k := ?x], buffer_size := ?k + 1\<rparr>"
  have k: "?k < length (buffer w)" using Cons.prems by simp
  have a: "add_point env w p = Inr ?w1" using k by (simp add: add_point_def)
  have l: "buffer_size ?w1 + length ps \<le> length (buffer ?w1)" using Cons.prems by simp
  have t: "take (Suc ?k) ((buffer w)[?k := ?x]) = take ?k (buffer w) @ [?x]"
    using k by (simp add: take_Suc_conv_app_nth)
  show ?case
    using Cons.IH [OF l] by (simp add: a t)
qed

lemma Writer_ctor_fields:
  assumes "Writer_ctor env fs file dt props d = Inr (w, fs1)"
  shows "buffer_size w = 0 \<and> commit_trace w = [] \<and> weights_buffer w = []
       \<and> buffer w = replicate (buffer_capacity w + 2) (0, 0, 0)
       \<and> buffer_capacity w = to_size_t (get_int (TrackWriterBufferSize env) (int d)) div 12
       \<and> (\<exists>u. WriterUnbuffered_ctor env fs file dt props = Inr (u, fs1)
              \<and> name w = name u \<and> dtype w = dtype u \<and> count w = count u
              \<and> total_count w = total_count u \<and> weights_name w = weights_name u
              \<and> barrier_addr w = barrier_addr u)"
  using assms
  by (auto simp: Writer_ctor_def Let_def Writer.defs WriterUnbuffered.defs split: sum.splits)

lemma writer_state_cong:
  assumes "name w' = name w" "dtype w' = dtype w" "weights_name w' = weights_name w"
    "barrier_addr w' = barrier_addr w"
  shows "writer_state env w' fs body = writer_state env w fs body"
  using assms by (simp add: writer_state_def split: option.split fs_file.split)

lemma Writer_ctor_state:
  assumes c: "Writer_ctor env fs file dt props d = Inr (w, fs1)"
    and ne: "tck_weights_out env \<noteq> Some file"
  shows "writer_state env w fs1 [] \<and> name w = file \<and> dtype w = dt
       \<and> count w = 0 \<and> total_count w = 0"
proof -
  obtain u where u: "WriterUnbuffered_ctor env fs file dt props = Inr (u, fs1)"
    and e: "name w = name u" "dtype w = dtype u" "count w = count u"
      "total_count w = total_count u" "weights_name w = weights_name u"
      "barrier_addr w = barrier_addr u"
    using Writer_ctor_fields [OF c] by blast
  have "writer_state env w fs1 [] = writer_state env u fs1 []"
    using e by (intro writer_state_cong) simp_all
  then show ?thesis using unbuffered_ctor_state [OF u ne] e by simp
qed

lemma Writer_commit_empty:
  assumes s: "writer_state env w fs body" and z: "buffer_size w = 0"
    and wb: "weights_buffer w = []"
  shows "Writer_commit env w fs = Inr (w\<lparr>commit_trace := commit_trace w @ [0]\<rparr>, fs)"
proof (cases "weights_name w = []")
  case True
  then show ?thesis using z by (simp add: Writer_commit_def WriterUnbuffered_commit_def Let_def)
next
  case False
  obtain t where t: "fs (weights_name w) = Some (Text t)"
    using s False by (rule writer_state_weights)
  have "fs(weights_name w \<mapsto> Text t) = fs" using t by (simp add: fun_upd_idem)
  then show ?thesis using z False t wb
    by (simp add: Writer_commit_def WriterUnbuffered_commit_def Let_def write_weights_def)
qed

lemma weights_stateD:
  assumes "weights_state w fs wtext" "weights_name w \<noteq> []"
  obtains t where "fs (weights_name w) = Some (Text t)" and "t @ weights_buffer w = wtext"
  using assms by (auto simp: weights_state_def split: option.splits fs_file.splits)

lemma writer_state_weights_update:
  assumes "writer_state env w fs body" "weights_name w \<noteq> name w"
  shows "writer_state env w (fs(weights_name w \<mapsto> Text t)) body"
  using assms by (simp add: writer_state_def split: option.splits fs_file.splits)

lemma Writer_commit_state:
  assumes s: "writer_state env w fs body"
    and n: "buffer_size w < length (buffer w)"
    and ws: "weights_state w fs wtext"
  shows "\<exists>w' fs'. Writer_commit env w fs = Inr (w', fs')
       \<and> writer_state env w' fs' (body @ take (buffer_size w) (buffer w))
       \<and> weights_state w' fs' wtext
       \<and> buffer_size w' = 0 \<and> length (buffer w') = length (buffer w)
       \<and> buffer_capacity w' = buffer_capacity w
       \<and> name w' = name w \<and> dtype w' = dtype w \<and> count w' = count w
       \<and> total_count w' = total_count w \<and> weights_name w' = weights_name w
       \<and> weights_buffer w' = []
       \<and> commit_trace w' = commit_trace w @ [buffer_size w]
       \<and> barrier_addr w' = barrier_addr w + 12 * int (buffer_size w)
       \<and> (0 < buffer_size w \<longrightarrow>
            (\<exists>f'. fs' (name w) = Some (Tracks f') \<and> hdr_count f' = count w
                 \<and> hdr_total_count f' = total_count w))"
proof -
  let ?x = "format_point env (dtype w) barrier"
  obtain f where f: "fs (name w) = Some (Tracks f)"
    and d: "data_region f = body @ [?x]"
    and a: "barrier_addr w = int (hdr_size f) + 12 * int (length body)"
    using s by (rule writer_stateD)
  have h: "hdr_dtype f = dtype w" using s f by (rule writer_state_dtype)
  let ?k = "buffer_size w"
  let ?f1 = "f\<lparr>data_region := body @ take ?k (buffer w) @ [?x],
                 hdr_count := count w, hdr_total_count := total_count w\<rparr>"
  define data1 where "data1 = (if ?k = 0 then buffer w else (buffer w)[?k := ?x])"
  define w1 where "w1 = (if ?k = 0 then w
      else w\<lparr>barrier_addr := int (hdr_size f) + 12 * int (length body + ?k)\<rparr>)"
  define fs1 where "fs1 = (if ?k = 0 then fs else fs(name w \<mapsto> Tracks ?f1))"
  have c: "WriterUnbuffered_commit env w fs (buffer w) ?k = Inr (data1, w1, fs1)"
  proof (cases "?k = 0")
    case True
    then show ?thesis by (simp add: WriterUnbuffered_commit_def data1_def w1_def fs1_def)
  next
    case False
    then have p: "0 < ?k" by simp
    show ?thesis
      using commit_file [where fs = fs and w = w and f = f and body = body and env = env,
          OF f d a p n] False
      by (simp add: data1_def w1_def fs1_def)
  qed
  have s1: "writer_state env w1 fs1 (body @ take ?k (buffer w))"
  proof (cases "?k = 0")
    case True
    then show ?thesis using s by (simp add: w1_def fs1_def)
  next
    case False
    have wp: "weights_name w = []
        \<or> (weights_name w \<noteq> name w \<and> (\<exists>t. fs (weights_name w) = Some (Text t)))"
      using s by (auto simp: writer_state_def split: option.splits fs_file.splits)
    have m: "min (length (buffer w)) ?k = ?k" using n by simp
    show ?thesis using False h wp
      by (auto simp: w1_def fs1_def writer_state_def m)
  qed
  have e1: "name w1 = name w" "dtype w1 = dtype w" "count w1 = count w"
    "total_count w1 = total_count w" "weights_name w1 = weights_name w"
    "buffer_capacity w1 = buffer_capacity w" "weights_buffer w1 = weights_buffer w"
    "commit_trace w1 = commit_trace w"
    "barrier_addr w1 = barrier_addr w + 12 * int (buffer_size w)"
    using a by (simp_all add: w1_def)
  have l1: "length data1 = length (buffer w)" by (simp add: data1_def)
  have hc: "0 < ?k \<longrightarrow> (\<exists>f'. fs1 (name w) = Some (Tracks f') \<and> hdr_count f' = count w
                 \<and> hdr_total_count f' = total_count w)"
    by (simp add: fs1_def)
  let ?w2 = "w1\<lparr>buffer := data1, buffer_size := 0, commit_trace := commit_trace w1 @ [?k]\<rparr>"
  have "writer_state env ?w2 fs1 (body @ take ?k (buffer w)) =
      writer_state env w1 fs1 (body @ take ?k (buffer w))"
    by (rule writer_state_cong) simp_all
  then have s2: "writer_state env ?w2 fs1 (body @ take ?k (buffer w))"
    using s1 by simp
  show ?thesis
  proof (cases "weights_name w = []")
    case True
    have r: "Writer_commit env w fs = Inr (?w2, fs1)"
      using True by (simp add: Writer_commit_def c Let_def e1)
    have wb: "weights_buffer w = []" using ws True by (simp add: weights_state_def)
    have ws2: "weights_state ?w2 fs1 wtext"
      using True wb by (simp add: weights_state_def e1)
    show ?thesis using r s2 ws2 hc wb by (simp add: e1 l1)
  next
    case False
    obtain t where t: "fs (weights_name w) = Some (Text t)" and tw: "t @ weights_buffer w = wtext"
      using ws False by (rule weights_stateD)
    obtain t' where ne: "weights_name w \<noteq> name w"
      using s False by (rule writer_state_weights)
    have t1: "fs1 (weights_name w) = Some (Text t)" using t ne by (simp add: fs1_def)
    let ?fs2 = "fs1(weights_name w \<mapsto> Text (t @ weights_buffer w))"
    let ?w3 = "?w2\<lparr>weights_buffer := []\<rparr>"
    have r: "Writer_commit env w fs = Inr (?w3, ?fs2)"
      using False t1 by (simp add: Writer_commit_def c Let_def e1 write_weights_def)
    have "weights_name ?w2 \<noteq> name ?w2" using ne by (simp add: e1)
    then have "writer_state env ?w2 (fs1(weights_name ?w2 \<mapsto> Text (t @ weights_buffer w)))
        (body @ take ?k (buffer w))"
      using s2 by (intro writer_state_weights_update)
    then have s2': "writer_state env ?w2 ?fs2 (body @ take ?k (buffer w))"
      by (simp add: e1)
    have "writer_state env ?w3 ?fs2 (body @ take ?k (buffer w)) =
        writer_state env ?w2 ?fs2 (body @ take ?k (buffer w))"
      by (rule writer_state_cong) simp_all
    then have s3: "writer_state env ?w3 ?fs2 (body @ take ?k (buffer w))"
      using s2' by simp
    have ws3: "weights_state ?w3 ?fs2 wtext"
      using False tw by (simp add: weights_state_def e1)
    have hc3: "0 < ?k \<longrightarrow> (\<exists>f'. ?fs2 (name w) = Some (Tracks f') \<and> hdr_count f' = count w
                 \<and> hdr_total_count f' = total_count w)"
      using hc ne by simp
    show ?thesis using r s3 ws3 hc3 by (simp add: e1 l1)
  qed
qed

lemma track_record_nonempty:
  "points tck \<noteq> [] \<Longrightarrow>
     track_record env dt tck = map (format_point env dt) (points tck @ [delimiter])"
  by (simp add: track_record_def)

lemma weights_text_append:
  "weights_text env (xs @ ys) = weights_text env xs @ weights_text env ys"
  by (simp add: weights_text_def)

lemma weights_state_cong:
  assumes "weights_name w' = weights_name w" "weights_buffer w' = weights_buffer w"
  shows "weights_state w' fs wtext = weights_state w fs wtext"
  using assms by (simp add: weights_state_def split: option.splits fs_file.splits)

lemma weights_state_add:
  assumes "weights_state w fs wtext" "weights_name w' = weights_name w"
    "weights_buffer w' = (if weights_name w \<noteq> [] then weights_buffer w @ x else weights_buffer w)"
  shows "weights_state w' fs (wtext @ (if weights_name w \<noteq> [] then x else []))"
  using assms by (auto simp: weights_state_def split: option.splits fs_file.splits)

lemma weights_state_none:
  "weights_name w = [] \<Longrightarrow> weights_state w fs x = weights_state w fs y"
  by (simp add: weights_state_def)

lemma Writer_append_result:
  assumes s: "writer_state env w fs body"
    and bl: "length (buffer w) = buffer_capacity w + 2"
    and bs: "buffer_size w \<le> buffer_capacity w + 1"
    and ws: "weights_state w fs wtext"
    and fit: "length (points tck) \<le> buffer_capacity w"
  shows "\<exists>w' fs' body'. Writer_append env w fs tck = Inr (True, w', fs')
       \<and> writer_state env w' fs' body'
       \<and> body' @ take (buffer_size w') (buffer w') =
           body @ take (buffer_size w) (buffer w) @ track_record env (dtype w) tck
       \<and> length (buffer w') = buffer_capacity w' + 2
       \<and> buffer_size w' \<le> buffer_capacity w' + 1
       \<and> buffer_capacity w' = buffer_capacity w
       \<and> weights_state w' fs' (wtext @ weights_text env [tck])
       \<and> name w' = name w \<and> dtype w' = dtype w \<and> weights_name w' = weights_name w
       \<and> count w' = count w + (if points tck = [] then 0 else 1)
       \<and> total_count w' = total_count w + 1
       \<and> (points tck \<noteq> [] \<longrightarrow> 0 < buffer_size w')
       \<and> (points tck = [] \<longrightarrow> buffer_size w' = buffer_size w)
       \<and> commit_trace w' = commit_trace w @
           (if points tck \<noteq> [] \<and> buffer_size w + length (points tck) > buffer_capacity w
            then [buffer_size w] else [])
       \<and> (if points tck \<noteq> [] \<and> buffer_size w + length (points tck) > buffer_capacity w
          then body' = body @ take (buffer_size w) (buffer w)
             \<and> barrier_addr w' = barrier_addr w + 12 * int (buffer_size w)
             \<and> take (buffer_size w') (buffer w') = track_record env (dtype w) tck
          else fs' = fs \<and> body' = body \<and> barrier_addr w' = barrier_addr w
             \<and> take (buffer_size w') (buffer w') =
                 take (buffer_size w) (buffer w) @ track_record env (dtype w) tck)"
proof (cases "points tck = []")
  case True
  have r: "Writer_append env w fs tck = Inr (True, w\<lparr>total_count := total_count w + 1\<rparr>, fs)"
    using True by (simp add: Writer_append_def)
  have a: "writer_state env (w\<lparr>total_count := total_count w + 1\<rparr>) fs body"
    using s by simp
  have "weights_state (w\<lparr>total_count := total_count w + 1\<rparr>) fs wtext = weights_state w fs wtext"
    by (rule weights_state_cong) simp_all
  then have b: "weights_state (w\<lparr>total_count := total_count w + 1\<rparr>) fs (wtext @ weights_text env [tck])"
    using ws True by (simp add: weights_text_def)
  show ?thesis
    using r a b True bl bs by (auto simp: track_record_def)
next
  case False
  let ?n = "length (points tck)"
  let ?ps = "points tck @ [delimiter]"
  have n: "buffer_size w < length (buffer w)" using bl bs by simp
  \<comment> \<open>the state after the optional flush\<close>
  obtain w1 fs1 body1 where
    c: "(if buffer_size w + ?n > buffer_capacity w then Writer_commit env w fs else Inr (w, fs)) =
          Inr (w1, fs1)"
    and s1: "writer_state env w1 fs1 body1"
    and b1: "body1 @ take (buffer_size w1) (buffer w1) = body @ take (buffer_size w) (buffer w)"
    and ws1: "weights_state w1 fs1 wtext"
    and l1: "length (buffer w1) = buffer_capacity w + 2"
    and k1: "buffer_size w1 + ?n \<le> buffer_capacity w"
    and e1: "buffer_capacity w1 = buffer_capacity w" "name w1 = name w" "dtype w1 = dtype w"
      "count w1 = count w" "total_count w1 = total_count w" "weights_name w1 = weights_name w"
    and t1: "commit_trace w1 = commit_trace w @
        (if buffer_size w + ?n > buffer_capacity w then [buffer_size w] else [])"
    and x1: "if buffer_size w + ?n > buffer_capacity w
        then body1 = body @ take (buffer_size w) (buffer w) \<and> buffer_size w1 = 0
           \<and> barrier_addr w1 = barrier_addr w + 12 * int (buffer_size w)
        else fs1 = fs \<and> body1 = body \<and> w1 = w"
  proof (cases "buffer_size w + ?n > buffer_capacity w")
    case True
    obtain w' fs' where "Writer_commit env w fs = Inr (w', fs')"
      "writer_state env w' fs' (body @ take (buffer_size w) (buffer w))"
      "weights_state w' fs' wtext" "buffer_size w' = 0" "length (buffer w') = length (buffer w)"
      "buffer_capacity w' = buffer_capacity w" "name w' = name w" "dtype w' = dtype w"
      "count w' = count w" "total_count w' = total_count w" "weights_name w' = weights_name w"
      "commit_trace w' = commit_trace w @ [buffer_size w]"
      "barrier_addr w' = barrier_addr w + 12 * int (buffer_size w)"
      using Writer_commit_state [OF s n ws] by blast
    then show ?thesis using True fit bl by (intro that [of w' fs']) simp_all
  next
    case False
    then show ?thesis using s ws bl by (intro that [of w fs body]) simp_all
  qed
  let ?k = "buffer_size w1"
  have l: "?k + length ?ps \<le> length (buffer w1)" using k1 l1 by simp
  let ?buf2 = "take ?k (buffer w1) @ map (format_point env (dtype w1)) ?ps
                 @ drop (?k + length ?ps) (buffer w1)"
  let ?w2 = "w1\<lparr>buffer := ?buf2, buffer_size := ?k + length ?ps\<rparr>"
  have ap: "add_points env w1 ?ps = Inr ?w2" using l by (rule add_points_buffer)
  have tk: "take (?k + length ?ps) ?buf2 = take ?k (buffer w1) @ map (format_point env (dtype w1)) ?ps"
    using l by simp
  have "writer_state env ?w2 fs1 body1 = writer_state env w1 fs1 body1"
    by (rule writer_state_cong) simp_all
  then have s2: "writer_state env ?w2 fs1 body1" using s1 by simp
  let ?w3 = "(if weights_name ?w2 \<noteq> []
              then ?w2\<lparr>weights_buffer := weights_buffer ?w2 @ str_weight env (weight tck) @ '' ''\<rparr>
              else ?w2)"
  define w4 where "w4 = ?w3\<lparr>count := count ?w3 + 1, total_count := total_count ?w3 + 1\<rparr>"
  have r: "Writer_append env w fs tck = Inr (True, w4, fs1)"
    unfolding Writer_append_def w4_def using False c ap by (simp add: Let_def)
  have f4: "buffer w4 = ?buf2" "buffer_size w4 = ?k + length ?ps"
    "buffer_capacity w4 = buffer_capacity w" "name w4 = name w" "dtype w4 = dtype w"
    "count w4 = count w + 1" "total_count w4 = total_count w + 1"
    "weights_name w4 = weights_name w" "barrier_addr w4 = barrier_addr w1"
    "weights_buffer w4 = (if weights_name w1 \<noteq> []
        then weights_buffer w1 @ str_weight env (weight tck) @ '' '' else weights_buffer w1)"
    "commit_trace w4 = commit_trace w1"
    by (simp_all add: e1 w4_def)
  have "writer_state env w4 fs1 body1 = writer_state env w1 fs1 body1"
    by (rule writer_state_cong) (simp_all add: f4 e1)
  then have s4: "writer_state env w4 fs1 body1" using s1 by simp
  have wa: "weights_state w4 fs1
      (wtext @ (if weights_name w1 \<noteq> [] then str_weight env (weight tck) @ '' '' else []))"
    using ws1 by (rule weights_state_add) (simp_all add: f4 e1)
  have ws4: "weights_state w4 fs1 (wtext @ weights_text env [tck])"
  proof (cases "weights_name w1 = []")
    case True
    then have "weights_name w4 = []" by (simp add: f4 e1)
    then have "weights_state w4 fs1 (wtext @ weights_text env [tck]) = weights_state w4 fs1 (wtext @ [])"
      by (rule weights_state_none)
    then show ?thesis using wa True by simp
  next
    case nw: False
    then show ?thesis using wa False by (simp add: weights_text_def)
  qed
  have b4: "body1 @ take (buffer_size w4) (buffer w4) =
      body @ take (buffer_size w) (buffer w) @ track_record env (dtype w) tck"
  proof -
    have "body1 @ take (buffer_size w4) (buffer w4) =
        (body1 @ take ?k (buffer w1)) @ map (format_point env (dtype w1)) ?ps"
      unfolding f4 tk by simp
    also have "\<dots> = (body @ take (buffer_size w) (buffer w)) @ track_record env (dtype w) tck"
      unfolding b1 track_record_nonempty [OF False] e1 ..
    finally show ?thesis by simp
  qed
  have m4: "length (buffer w4) = buffer_capacity w4 + 2"
    "buffer_size w4 \<le> buffer_capacity w4 + 1" "0 < buffer_size w4"
    using l l1 k1 by (simp_all add: f4)
  have m4': "buffer_size w4 \<le> Suc (buffer_capacity w)" "length (buffer w4) = Suc (Suc (buffer_capacity w))"
    using m4 by (simp_all add: f4(3))
  have t4: "commit_trace w4 = commit_trace w @
      (if points tck \<noteq> [] \<and> buffer_size w + ?n > buffer_capacity w then [buffer_size w] else [])"
    using t1 False by (simp add: f4)
  have tk4: "take (buffer_size w4) (buffer w4) =
      take ?k (buffer w1) @ track_record env (dtype w) tck"
  proof -
    have "take (buffer_size w4) (buffer w4) =
        take ?k (buffer w1) @ map (format_point env (dtype w1)) ?ps"
      unfolding f4 tk ..
    then show ?thesis unfolding track_record_nonempty [OF False] e1 .
  qed
  have x4: "if points tck \<noteq> [] \<and> buffer_size w + ?n > buffer_capacity w
      then body1 = body @ take (buffer_size w) (buffer w)
         \<and> barrier_addr w4 = barrier_addr w + 12 * int (buffer_size w)
         \<and> take (buffer_size w4) (buffer w4) = track_record env (dtype w) tck
      else fs1 = fs \<and> body1 = body \<and> barrier_addr w4 = barrier_addr w
         \<and> take (buffer_size w4) (buffer w4) =
             take (buffer_size w) (buffer w) @ track_record env (dtype w) tck"
  proof (cases "buffer_size w + ?n > buffer_capacity w")
    case True
    then show ?thesis using x1 tk4 False by (simp add: f4(9))
  next
    case nf: False
    then show ?thesis using x1 tk4 by (simp add: f4(9))
  qed
  have base: "Writer_append env w fs tck = Inr (True, w4, fs1)
       \<and> writer_state env w4 fs1 body1
       \<and> body1 @ take (buffer_size w4) (buffer w4) =
           body @ take (buffer_size w) (buffer w) @ track_record env (dtype w) tck
       \<and> length (buffer w4) = buffer_capacity w4 + 2
       \<and> buffer_size w4 \<le> buffer_capacity w4 + 1
       \<and> buffer_capacity w4 = buffer_capacity w
       \<and> weights_state w4 fs1 (wtext @ weights_text env [tck])
       \<and> name w4 = name w \<and> dtype w4 = dtype w \<and> weights_name w4 = weights_name w
       \<and> count w4 = count w + (if points tck = [] then 0 else 1)
       \<and> total_count w4 = total_count w + 1
       \<and> (points tck \<noteq> [] \<longrightarrow> 0 < buffer_size w4)
       \<and> (points tck = [] \<longrightarrow> buffer_size w4 = buffer_size w)"
    by (simp add: False r s4 b4 m4 m4' ws4 f4(3-8))
  show ?thesis
    using base t4 x4 by (intro exI [of _ w4] exI [of _ fs1] exI [of _ body1]) blast
qed

lemma Writer_append_state:
  assumes s: "writer_state env w fs body"
    and bl: "length (buffer w) = buffer_capacity w + 2"
    and bs: "buffer_size w \<le> buffer_capacity w + 1"
    and ws: "weights_state w fs wtext"
    and fit: "length (points tck) \<le> buffer_capacity w"
  shows "\<exists>w' fs' body'. Writer_append env w fs tck = Inr (True, w', fs')
       \<and> writer_state env w' fs' body'
       \<and> body' @ take (buffer_size w') (buffer w') =
           body @ take (buffer_size w) (buffer w) @ track_record env (dtype w) tck
       \<and> length (buffer w') = buffer_capacity w' + 2
       \<and> buffer_size w' \<le> buffer_capacity w' + 1
       \<and> buffer_capacity w' = buffer_capacity w
       \<and> weights_state w' fs' (wtext @ weights_text env [tck])
       \<and> name w' = name w \<and> dtype w' = dtype w \<and> weights_name w' = weights_name w
       \<and> count w' = count w + (if points tck = [] then 0 else 1)
       \<and> total_count w' = total_count w + 1
       \<and> (points tck \<noteq> [] \<longrightarrow> 0 < buffer_size w')
       \<and> (points tck = [] \<longrightarrow> buffer_size w' = buffer_size w)"
  using Writer_append_result [OF assms] by blast

lemma Writer_appends_state:
  assumes s: "writer_state env w fs body"
    and bl: "length (buffer w) = buffer_capacity w + 2"
    and bs: "buffer_size w \<le> buffer_capacity w + 1"
    and ws: "weights_state w fs wtext"
    and fit: "\<forall>tck\<in>set tcks. length (points tck) \<le> buffer_capacity w"
  shows "\<exists>w' fs' body'. Writer_appends env w fs tcks = Inr (w', fs')
       \<and> writer_state env w' fs' body'
       \<and> body' @ take (buffer_size w') (buffer w') =
           body @ take (buffer_size w) (buffer w) @ concat (map (track_record env (dtype w)) tcks)
       \<and> length (buffer w') = buffer_capacity w' + 2
       \<and> buffer_size w' \<le> buffer_capacity w' + 1
       \<and> weights_state w' fs' (wtext @ weights_text env tcks)
       \<and> name w' = name w \<and> dtype w' = dtype w \<and> weights_name w' = weights_name w
       \<and> count w' = count w + length (accepted tcks)
       \<and> total_count w' = total_count w + length tcks
       \<and> (0 < buffer_size w \<or> accepted tcks \<noteq> [] \<longrightarrow> 0 < buffer_size w')"
  using assms
proof (induction tcks arbitrary: w fs body wtext)
  case Nil
  then show ?case by (simp add: weights_text_def accepted_def)
next
  case (Cons tck tcks)
  have fit1: "length (points tck) \<le> buffer_capacity w" using Cons.prems(5) by simp
  obtain w1 fs1 body1 where
    a: "Writer_append env w fs tck = Inr (True, w1, fs1)"
    and s1: "writer_state env w1 fs1 body1"
    and b1: "body1 @ take (buffer_size w1) (buffer w1) =
           body @ take (buffer_size w) (buffer w) @ track_record env (dtype w) tck"
    and l1: "length (buffer w1) = buffer_capacity w1 + 2"
    and k1: "buffer_size w1 \<le> buffer_capacity w1 + 1"
    and c1: "buffer_capacity w1 = buffer_capacity w"
    and ws1: "weights_state w1 fs1 (wtext @ weights_text env [tck])"
    and e1: "name w1 = name w" "dtype w1 = dtype w" "weights_name w1 = weights_name w"
    and n1: "count w1 = count w + (if points tck = [] then 0 else 1)"
      "total_count w1 = total_count w + 1"
    and p1: "points tck \<noteq> [] \<longrightarrow> 0 < buffer_size w1"
      "points tck = [] \<longrightarrow> buffer_size w1 = buffer_size w"
    using Writer_append_state [OF Cons.prems(1-4) fit1] by blast
  have fit2: "\<forall>t\<in>set tcks. length (points t) \<le> buffer_capacity w1"
    using Cons.prems(5) c1 by simp
  obtain w' fs' body' where
    r: "Writer_appends env w1 fs1 tcks = Inr (w', fs')"
    and s': "writer_state env w' fs' body'"
    and b': "body' @ take (buffer_size w') (buffer w') =
           body1 @ take (buffer_size w1) (buffer w1) @ concat (map (track_record env (dtype w1)) tcks)"
    and l': "length (buffer w') = buffer_capacity w' + 2"
    and k': "buffer_size w' \<le> buffer_capacity w' + 1"
    and ws': "weights_state w' fs' ((wtext @ weights_text env [tck]) @ weights_text env tcks)"
    and e': "name w' = name w1" "dtype w' = dtype w1" "weights_name w' = weights_name w1"
    and n': "count w' = count w1 + length (accepted tcks)"
      "total_count w' = total_count w1 + length tcks"
    and p': "0 < buffer_size w1 \<or> accepted tcks \<noteq> [] \<longrightarrow> 0 < buffer_size w'"
    using Cons.IH [OF s1 l1 k1 ws1 fit2] by blast
  have r0: "Writer_appends env w fs (tck # tcks) = Inr (w', fs')"
    using a r by simp
  have bb: "body' @ take (buffer_size w') (buffer w') =
      body @ take (buffer_size w) (buffer w) @ concat (map (track_record env (dtype w)) (tck # tcks))"
  proof -
    have "body' @ take (buffer_size w') (buffer w') =
        (body1 @ take (buffer_size w1) (buffer w1)) @ concat (map (track_record env (dtype w1)) tcks)"
      using b' by simp
    then show ?thesis unfolding b1 e1 by simp
  qed
  have wt: "weights_state w' fs' (wtext @ weights_text env (tck # tcks))"
    using ws' weights_text_append [of env "[tck]" tcks] by simp
  have cnt: "count w' = count w + length (accepted (tck # tcks))"
    "total_count w' = total_count w + length (tck # tcks)"
    using n' n1 by (simp_all add: accepted_def)
  have pos: "0 < buffer_size w \<or> accepted (tck # tcks) \<noteq> [] \<longrightarrow> 0 < buffer_size w'"
    using p' p1 by (cases "points tck = []") (auto simp: accepted_def)
  have nm: "name w' = name w" "dtype w' = dtype w" "weights_name w' = weights_name w"
    using e' e1 by simp_all
  show ?case using r0 s' bb l' k' wt nm cnt pos by blast
qed

lemma fixture_writer_ctor:
  "Writer_ctor fixture_app Map.empty ''out.tck'' Float32LE Map.empty 16777216 =
     Inr (fixture_writer, [''out.tck'' \<mapsto> Tracks fixture_tracks])"
proof -
  have c: "to_size_t (get_int (TrackWriterBufferSize fixture_app) (int 16777216)) div 12 = 2"
    by (simp add: fixture_app_def get_int_def to_size_t_def)
  show ?thesis
    unfolding Writer_ctor_def fixture_unbuffered_ctor Let_def c
    by (simp add: fixture_unbuffered_def fixture_writer_def Writer.defs WriterUnbuffered.defs
          numeral_eq_Suc)
qed


lemma fixture_writer_state:
  "writer_state fixture_app fixture_writer [''out.tck'' \<mapsto> Tracks fixture_tracks] []"
  by (simp add: writer_state_def fixture_writer_def fixture_tracks_def format_point_fixture)

lemma fixture_writer_fields:
  "buffer_capacity fixture_writer = 2" "buffer_size fixture_writer = 0"
  "weights_buffer fixture_writer = []" "commit_trace fixture_writer = []"
  by (simp_all add: fixture_writer_def)

lemma fixture_writer_fields2:
  "weights_name fixture_writer = []" "count fixture_writer = 0" "total_count fixture_writer = 0"
  "buffer fixture_writer = [(0, 0, 0), (0, 0, 0), (0, 0, 0), (0, 0, 0)]"
  "name fixture_writer = ''out.tck''" "dtype fixture_writer = Float32LE"
  "barrier_addr fixture_writer = 100"
  by (simp_all add: fixture_writer_def numeral_eq_Suc)

lemma fixture_streamline_points:
  "points (fixture_streamline 3) = [fixture_point 1, fixture_point 2, fixture_point 3]"
  "points (fixture_streamline 2) = [fixture_point 1, fixture_point 2]"
  "points (fixture_streamline 1) = [fixture_point 1]"
  by (simp_all add: fixture_streamline_def upt_rec fixture_point_def)









lemma unbuffered_ctor_weights:
  assumes "WriterUnbuffered_ctor env fs fname dt props = Inr (u, fs1)"
  shows "weights_name u = (case tck_weights_out env of None \<Rightarrow> [] | Some p \<Rightarrow> p)
       \<and> (weights_name u \<noteq> [] \<longrightarrow> fs1 (weights_name u) = Some (Text []))"
  using assms
  by (auto simp: WriterUnbuffered_ctor_def Let_def set_weights_path_def
        split: if_splits option.splits)

lemma Writer_ctor_weights:
  assumes c: "Writer_ctor env fs fname dt props d = Inr (w, fs1)"
  shows "weights_state w fs1 []
       \<and> weights_name w = (case tck_weights_out env of None \<Rightarrow> [] | Some p \<Rightarrow> p)"
proof -
  obtain u where u: "WriterUnbuffered_ctor env fs fname dt props = Inr (u, fs1)"
    and e: "weights_name w = weights_name u"
    using Writer_ctor_fields [OF c] by blast
  have b: "weights_buffer w = []" using Writer_ctor_fields [OF c] by simp
  show ?thesis
    using unbuffered_ctor_weights [OF u] e b by (auto simp: weights_state_def)
qed

lemma last_track_records:
  "\<not> (\<forall>t\<in>set tcks. points t = []) \<Longrightarrow>
     concat (map (track_record env dt) tcks) \<noteq> []
     \<and> last (concat (map (track_record env dt) tcks)) = format_point env dt delimiter"
proof (induction tcks)
  case Nil
  then show ?case by simp
next
  case (Cons t tcks)
  show ?case
  proof (cases "\<forall>t\<in>set tcks. points t = []")
    case True
    then have e: "concat (map (track_record env dt) tcks) = []"
      by (simp add: track_record_def)
    have "points t \<noteq> []" using Cons.prems True by simp
    then have r: "track_record env dt t =
        map (format_point env dt) (points t) @ [format_point env dt delimiter]"
      by (simp add: track_record_def)
    show ?thesis by (simp add: e r)
  next
    case False
    then show ?thesis using Cons.IH by simp
  qed
qed

lemma empty_track_records:
  "\<forall>t\<in>set tcks. points t = [] \<Longrightarrow> concat (map (track_record env dt) tcks) = []"
  by (simp add: track_record_def)

text \<open>
  The buffered writer: when no streamline has more points than the buffer has capacity
  for, the same holds of the file once the writer is closed.
\<close>

lemma buffered_barrier_at_end:
  assumes ctor: "Writer_ctor env fs0 fname dt props d = Inr (w0, fs1)"
    and nw: "tck_weights_out env \<noteq> Some fname"
    and fit: "\<forall>tck\<in>set tcks. length (points tck) \<le> buffer_capacity w0"
  shows "\<exists>w1 fs2 w2 fs3 f body.
           Writer_appends env w0 fs1 tcks = Inr (w1, fs2)
         \<and> Writer_close env w1 fs2 = Inr (w2, fs3)
         \<and> fs3 fname = Some (Tracks f)
         \<and> data_region f = body @ [format_point env dt barrier]
         \<and> barrier_addr w2 = int (hdr_size f) + 12 * int (length body)
         \<and> (if \<forall>tck\<in>set tcks. points tck = [] then body = []
             else last body = format_point env dt delimiter)"
proof -
  have s0: "writer_state env w0 fs1 []" and n0: "name w0 = fname" "dtype w0 = dt"
    using Writer_ctor_state [OF ctor nw] by simp_all
  have f0: "buffer_size w0 = 0" "buffer w0 = replicate (buffer_capacity w0 + 2) (0, 0, 0)"
    using Writer_ctor_fields [OF ctor] by simp_all
  have bl0: "length (buffer w0) = buffer_capacity w0 + 2" by (simp add: f0)
  have bs0: "buffer_size w0 \<le> buffer_capacity w0 + 1" by (simp add: f0)
  have ws0: "weights_state w0 fs1 []" using Writer_ctor_weights [OF ctor] by simp
  let ?recs = "concat (map (track_record env dt) tcks)"
  obtain w1 fs2 body1 where
    a: "Writer_appends env w0 fs1 tcks = Inr (w1, fs2)"
    and s1: "writer_state env w1 fs2 body1"
    and b1: "body1 @ take (buffer_size w1) (buffer w1) =
           [] @ take (buffer_size w0) (buffer w0) @ concat (map (track_record env (dtype w0)) tcks)"
    and l1: "length (buffer w1) = buffer_capacity w1 + 2"
    and k1: "buffer_size w1 \<le> buffer_capacity w1 + 1"
    and ws1: "weights_state w1 fs2 ([] @ weights_text env tcks)"
    and e1: "name w1 = name w0" "dtype w1 = dtype w0"
    using Writer_appends_state [OF s0 bl0 bs0 ws0 fit] by blast
  have b1': "body1 @ take (buffer_size w1) (buffer w1) = ?recs"
    using b1 by (simp add: f0 n0)
  have n1: "buffer_size w1 < length (buffer w1)" using l1 k1 by simp
  obtain w2 fs3 where
    c: "Writer_commit env w1 fs2 = Inr (w2, fs3)"
    and s2: "writer_state env w2 fs3 (body1 @ take (buffer_size w1) (buffer w1))"
    and e2: "name w2 = name w1" "dtype w2 = dtype w1"
    using Writer_commit_state [OF s1 n1 ws1] by blast
  have s2': "writer_state env w2 fs3 ?recs" using s2 b1' by simp
  obtain f where f: "fs3 (name w2) = Some (Tracks f)"
    and d: "data_region f = ?recs @ [format_point env (dtype w2) barrier]"
    and ad: "barrier_addr w2 = int (hdr_size f) + 12 * int (length ?recs)"
    using s2' by (rule writer_stateD)
  have e: "if \<forall>tck\<in>set tcks. points tck = [] then ?recs = []
           else last ?recs = format_point env dt delimiter"
    using last_track_records [of tcks env dt] empty_track_records [of tcks env dt]
    by simp
  have nm: "name w2 = fname" "dtype w2 = dt" using e2 e1 n0 by simp_all
  show ?thesis
    using a c f d ad e nm by (auto simp: Writer_close_def)
qed

lemma three_point_append:
  "Writer_append fixture_app fixture_writer [''out.tck'' \<mapsto> Tracks fixture_tracks]
      (fixture_streamline 3) =
     Inr (True, fixture_writer3, [''out.tck'' \<mapsto> Tracks fixture_tracks])"
proof -
  let ?fs = "[''out.tck'' \<mapsto> Tracks fixture_tracks]"
  let ?w1 = "fixture_writer\<lparr>commit_trace := [0]\<rparr>"
  let ?ps = "[fixture_point 1, fixture_point 2, fixture_point 3, delimiter]"
  have cm: "Writer_commit fixture_app fixture_writer ?fs = Inr (?w1, ?fs)"
    using Writer_commit_empty [OF fixture_writer_state fixture_writer_fields(2,3)]
    by (simp add: fixture_writer_fields)
  have l: "buffer_size ?w1 + length ?ps \<le> length (buffer ?w1)"
    by (simp add: fixture_writer_fields fixture_writer_fields2)
  have ap: "add_points fixture_app ?w1 ?ps = Inr (?w1\<lparr>buffer := ?ps, buffer_size := 4\<rparr>)"
    unfolding add_points_buffer [OF l]
    by (simp add: fixture_writer_fields fixture_writer_fields2 format_point_fixture)
  show ?thesis
    using cm ap
    by (simp add: Writer_append_def fixture_streamline_points fixture_writer_fields
          fixture_writer_fields2 Let_def)
       (simp add: fixture_writer3_def fixture_writer_def)
qed

text \<open>
  C6, evaluated on the code. A buffered writer is created with a capacity of 2 points
  (its buffer has 4 elements) and a streamline of 3 points is appended: operator()
  places the three points and the delimiter in the buffer, so that buffer_size is 4.
  Closing the writer calls commit (buffer, 4), which assigns the barrier to buffer[4],
  one element beyond the end of the buffer: the flush that should leave the barrier at
  the end of the file has no defined outcome.
\<close>

theorem C6_long_streamline_overflows_buffer:
  "Writer_ctor fixture_app Map.empty ''out.tck'' Float32LE Map.empty 16777216 =
     Inr (fixture_writer, [''out.tck'' \<mapsto> Tracks fixture_tracks])
   \<and> buffer_capacity fixture_writer = 2 \<and> length (buffer fixture_writer) = 4
   \<and> Writer_append fixture_app fixture_writer [''out.tck'' \<mapsto> Tracks fixture_tracks]
        (fixture_streamline 3) =
      Inr (True, fixture_writer3, [''out.tck'' \<mapsto> Tracks fixture_tracks])
   \<and> buffer_size fixture_writer3 = 4 \<and> length (buffer fixture_writer3) = 4
   \<and> Writer_close fixture_app fixture_writer3 [''out.tck'' \<mapsto> Tracks fixture_tracks] =
      Inl BufferOverflow"
proof -
  have c: "Writer_close fixture_app fixture_writer3 [''out.tck'' \<mapsto> Tracks fixture_tracks] =
      Inl BufferOverflow"
    by (simp add: Writer_close_def Writer_commit_def WriterUnbuffered_commit_def Let_def
          fixture_writer3_def)
  have l: "buffer_size fixture_writer3 = 4" "length (buffer fixture_writer3) = 4"
    by (simp_all add: fixture_writer3_def)
  show ?thesis
    using fixture_writer_ctor three_point_append c l
    by (simp add: fixture_writer_fields fixture_writer_fields2)
qed

subsection \<open>Track files: writing and reading back\<close>










lemma get_next_point_keeps:
  assumes "get_next_point env r = Inr (x, r1)"
  shows "rd_dtype r1 = rd_dtype r \<and> weights r1 = weights r \<and> current_index r1 = current_index r
       \<and> in_open r1 = in_open r"
  using assms by (auto simp: get_next_point_def split: DataType.splits list.splits)









lemma read_back_points: "map points (read_back ws i tcks) = map points tcks"
  by (induction tcks arbitrary: i) simp_all

lemma read_back_index: "map index (read_back ws i tcks) = [i..<i + length tcks]"
  by (induction tcks arbitrary: i) (simp_all add: upt_rec)

lemma read_back_weights:
  "map weight (read_back (pre @ map weight tcks) (length pre) tcks) = map weight tcks"
proof (induction tcks arbitrary: pre)
  case Nil
  then show ?case by simp
next
  case (Cons t tcks)
  have "map weight (read_back ((pre @ [weight t]) @ map weight tcks) (length (pre @ [weight t])) tcks)
      = map weight tcks"
    by (rule Cons.IH)
  then show ?case by simp
qed

lemma read_back_no_weights: "\<forall>t\<in>set (read_back [] i tcks). weight t = float_one"
  by (induction tcks arbitrary: i) simp_all

lemma returned_nil [simp]: "returned ws [] = []"
  by (simp add: returned_def)












end
